theory Spec2Isabelle
  imports Complex_Main "HOL-Library.Option_ord"
begin

section \<open>Bayesian colour constancy: the notebook's estimator\<close>

text \<open>
  The notebook \<^verbatim>\<open>notebooks/bayesian_color_constancy.ipynb\<close> keeps, for every pixel,
  a row of surviving hypotheses in four parallel numpy arrays (\<^verbatim>\<open>pixel_o\<close>,
  \<^verbatim>\<open>pixel_w\<close>, \<^verbatim>\<open>pixel_sigma\<close>, \<^verbatim>\<open>pixel_g\<close>). A two-dimensional array is a
  list of rows, a vector a list. The arithmetic of float64 values is idealised as the
  arithmetic of the reals. A function of the notebook that would divide by zero, where
  IEEE arithmetic produces \<^verbatim>\<open>inf\<close> or \<^verbatim>\<open>nan\<close> and numpy only warns, returns the error
  value \<open>NonFinite\<close> here; where Python raises, it returns the error value of that
  exception. The loop does not stop at a value that is not finite: it stores it, and
  so does its model below, whose arrays hold entries of the type \<open>float64\<close>.
\<close>

datatype error = ValueError | LinAlgError | IndexError | NonFinite

type_synonym vec = "real list"
type_synonym mat = "real list list"

subsection \<open>Python control flow and numpy operations\<close>

text \<open>A \<^verbatim>\<open>for\<close> loop over a list whose body may raise: the first error ends the loop.\<close>

fun for_each :: "('a \<Rightarrow> 's \<Rightarrow> error + 's) \<Rightarrow> 'a list \<Rightarrow> 's \<Rightarrow> error + 's" where
  "for_each body [] s = Inr s"
| "for_each body (x # xs) s =
     (case body x s of Inl e \<Rightarrow> Inl e | Inr s' \<Rightarrow> for_each body xs s')"

text \<open>A loop that fills an output array element by element.\<close>

fun collect :: "('a \<Rightarrow> error + 'b) \<Rightarrow> 'a list \<Rightarrow> error + 'b list" where
  "collect f [] = Inr []"
| "collect f (x # xs) =
     (case f x of Inl e \<Rightarrow> Inl e
      | Inr y \<Rightarrow> (case collect f xs of Inl e \<Rightarrow> Inl e | Inr ys \<Rightarrow> Inr (y # ys)))"

text \<open>
  \<^verbatim>\<open>range(start, stop, step)\<close>, with the length CPython computes for it; a zero step
  raises ValueError.
\<close>

definition py_range :: "int \<Rightarrow> int \<Rightarrow> int \<Rightarrow> error + int list" where
  "py_range start stop step =
     (if step = 0 then Inl ValueError
      else if 0 < step then
        Inr (map (\<lambda>k. start + int k * step) [0..<nat ((stop - start + step - 1) div step)])
      else
        Inr (map (\<lambda>k. start + int k * step) [0..<nat ((start - stop - step - 1) div (- step))]))"

text \<open>
  Reading \<^verbatim>\<open>a[i]\<close> with a Python integer: a negative index counts from the end, an
  index outside the array raises IndexError.
\<close>

definition np_index :: "nat \<Rightarrow> int \<Rightarrow> error + nat" where
  "np_index n i =
     (let j = (if i < 0 then int n + i else i)
      in if 0 \<le> j \<and> j < int n then Inr (nat j) else Inl IndexError)"

definition dot :: "vec \<Rightarrow> vec \<Rightarrow> real" where
  "dot u v = sum_list (map2 (*) u v)"

definition mat_T :: "mat \<Rightarrow> mat" where
  "mat_T a = map (\<lambda>j. map (\<lambda>row. row ! j) a) [0..<(case a of [] \<Rightarrow> 0 | r # _ \<Rightarrow> length r)]"

definition matmul :: "mat \<Rightarrow> mat \<Rightarrow> mat" where
  "matmul a b = map (\<lambda>row. map (dot row) (mat_T b)) a"

definition matvec :: "mat \<Rightarrow> vec \<Rightarrow> vec" where
  "matvec a v = map (\<lambda>row. dot row v) a"

definition vecmat :: "vec \<Rightarrow> mat \<Rightarrow> vec" where
  "vecmat v b = map (dot v) (mat_T b)"

definition vadd :: "vec \<Rightarrow> vec \<Rightarrow> vec" where
  "vadd u v = map2 (+) u v"

definition vsub :: "vec \<Rightarrow> vec \<Rightarrow> vec" where
  "vsub u v = map2 (-) u v"

definition vsmul :: "real \<Rightarrow> vec \<Rightarrow> vec" where
  "vsmul c v = map ((*) c) v"

definition madd :: "mat \<Rightarrow> mat \<Rightarrow> mat" where
  "madd a b = map2 vadd a b"

definition msub :: "mat \<Rightarrow> mat \<Rightarrow> mat" where
  "msub a b = map2 vsub a b"

definition smul :: "real \<Rightarrow> mat \<Rightarrow> mat" where
  "smul c a = map (vsmul c) a"

text \<open>\<^verbatim>\<open>a / c\<close> for a matrix and a scalar.\<close>

definition mdiv :: "mat \<Rightarrow> real \<Rightarrow> mat" where
  "mdiv a c = map (map (\<lambda>x. x / c)) a"

definition np_eye :: "nat \<Rightarrow> mat" where
  "np_eye n = map (\<lambda>i. map (\<lambda>j. if i = j then 1 else 0) [0..<n]) [0..<n]"

definition np_zeros :: "nat \<Rightarrow> nat \<Rightarrow> mat" where
  "np_zeros r c = replicate r (replicate c 0)"

definition np_diag :: "vec \<Rightarrow> mat" where
  "np_diag d = map (\<lambda>i. map (\<lambda>j. if i = j then d ! i else 0) [0..<length d]) [0..<length d]"

text \<open>\<^verbatim>\<open>v.reshape((r, c))\<close> of a vector of \<open>r * c\<close> entries, row-major.\<close>

definition reshape :: "nat \<Rightarrow> nat \<Rightarrow> vec \<Rightarrow> mat" where
  "reshape r c v = map (\<lambda>i. take c (drop (i * c) v)) [0..<r]"

text \<open>
  \<^verbatim>\<open>a.mean()\<close> and \<^verbatim>\<open>np.std(a)\<close> over the reals. For one value, and for two equal values,
  float64 arithmetic gives the same result exactly; for longer arrays numpy's result
  is rounded, and the standard deviation of three or more equal values need not be 0
  there.
\<close>

definition np_mean :: "vec \<Rightarrow> real" where
  "np_mean xs = sum_list xs / real (length xs)"

definition np_std :: "vec \<Rightarrow> real" where
  "np_std xs = sqrt (np_mean (map (\<lambda>x. (x - np_mean xs) ^ 2) xs))"

text \<open>
  \<^verbatim>\<open>np.linalg.det\<close> and \<^verbatim>\<open>np.linalg.inv\<close> are library routines; over the reals they are
  the determinant and the inverse, written here by expansion along the first row and by
  the adjugate. \<^verbatim>\<open>inv\<close> raises LinAlgError on a singular matrix.
\<close>

definition del_at :: "nat \<Rightarrow> 'a list \<Rightarrow> 'a list" where
  "del_at j xs = take j xs @ drop (Suc j) xs"

fun linalg_det :: "mat \<Rightarrow> real" where
  "linalg_det [] = 1"
| "linalg_det (r # rs) =
     sum_list (map (\<lambda>j. (- 1) ^ j * r ! j * linalg_det (map (del_at j) rs)) [0..<length r])"

definition minor :: "mat \<Rightarrow> nat \<Rightarrow> nat \<Rightarrow> mat" where
  "minor a i j = map (del_at j) (del_at i a)"

definition linalg_inv :: "mat \<Rightarrow> error + mat" where
  "linalg_inv a =
     (if linalg_det a = 0 then Inl LinAlgError
      else Inr (map (\<lambda>i. map (\<lambda>j. (- 1) ^ (i + j) * linalg_det (minor a j i) / linalg_det a)
                          [0..<length a]) [0..<length a]))"

subsection \<open>Module constants\<close>

definition INDEX_BEST_HYPOTHESIS :: nat where
  "INDEX_BEST_HYPOTHESIS = 0"

definition NUM_COLORS :: nat where
  "NUM_COLORS = 3"

definition MATERIALS :: "string list" where
  "MATERIALS = [''LEAF'', ''CEMENT'', ''PIPE'', ''LID'']"

definition NUM_MATERIALS :: nat where
  "NUM_MATERIALS = length MATERIALS"

definition LIGHT_SOURCES :: "string list" where
  "LIGHT_SOURCES = [''DIRECT_LIGHT'', ''BRIGHT_LIGHT'']"

definition NUM_LIGHT_SOURCES :: nat where
  "NUM_LIGHT_SOURCES = length LIGHT_SOURCES"

definition MATERIALS_LIGHT_SOURCE_COMBINATIONS :: "(nat \<times> nat) list" where
  "MATERIALS_LIGHT_SOURCE_COMBINATIONS =
     List.product [0..<NUM_MATERIALS] [0..<NUM_LIGHT_SOURCES]"

definition NUM_HYPOTHESISES :: nat where
  "NUM_HYPOTHESISES = length MATERIALS_LIGHT_SOURCE_COMBINATIONS"

definition MODEL_DIMENSIONS :: nat where
  "MODEL_DIMENSIONS = 2"

definition p_o :: vec where
  "p_o = replicate NUM_MATERIALS (1 / real NUM_MATERIALS)"

definition p_w :: vec where
  "p_w = replicate NUM_LIGHT_SOURCES (1 / real NUM_LIGHT_SOURCES)"

definition sigma_p :: mat where
  "sigma_p = np_diag [10, 10, 10]"

text \<open>\<^verbatim>\<open>invered_sigma_p = np.linalg.inv(sigma_p)\<close>, evaluated once when the module loads.\<close>

definition invered_sigma_p :: mat where
  "invered_sigma_p = (case linalg_inv sigma_p of Inr m \<Rightarrow> m | Inl _ \<Rightarrow> [])"

text \<open>\<^verbatim>\<open>get_mean_color_chart\<close>: indexed by material, then light source.\<close>

definition mean_color_chart :: "vec list list" where
  "mean_color_chart =
     [[[92, 190, 120], [250, 255, 255]],
      [[150, 220, 215], [255, 255, 255]],
      [[80, 210, 240], [210, 255, 255]],
      [[30, 200, 210], [65, 255, 250]]]"

subsection \<open>Hypothesis initialisation\<close>

definition color_angle_distance :: "vec \<Rightarrow> vec \<Rightarrow> real" where
  "color_angle_distance color1 color2 =
     foldl (\<lambda>total i. total + (color1 ! i - color2 ! i) ^ 2) 0 [0..<3]"

definition color_metric :: "vec \<Rightarrow> real" where
  "color_metric color = sqrt (color_angle_distance [0, 0, 0] color)"

text \<open>
  The seed of the illumination estimate in \<^verbatim>\<open>init_pixel_hypothesises\<close>:
  \<^verbatim>\<open>pixel @ mean_color_chart[o, w] / color_metric(mean_color_chart[o, w])\<close>.
\<close>

definition init_g :: "vec \<Rightarrow> vec \<Rightarrow> error + real" where
  "init_g pixel mean_color =
     (if color_metric mean_color = 0 then Inl NonFinite
      else Inr (dot pixel mean_color / color_metric mean_color))"

text \<open>
  The state the loop works on: the four hypothesis arrays and the spectrum estimates
  \<^verbatim>\<open>beta_hats[light source, dimension, image]\<close>, with entries of type \<open>'v\<close> in the
  three float64 arrays.
\<close>

record 'v hypotheses =
  pixel_o :: "nat list list"
  pixel_w :: "nat list list"
  pixel_sigma :: "'v list list list"
  pixel_g :: "'v list list"
  beta_hats :: "'v list list list"

text \<open>
  What the notebook computes from the image files before the loop and then only reads:
  the flattened image, its size, the calibration output (\<^verbatim>\<open>Rs\<close> and the two prior
  distributions) and the global illumination distribution.
\<close>

record globals =
  img :: "vec list"
  NUM_PIXEL :: nat
  img_width :: int
  img_height :: int
  image_index :: nat
  Rs :: "real list list list list"
  sigma_distribution_mean :: "vec list"
  sigma_distribution_std :: "mat list"
  beta_distribution_mean :: "vec list"
  beta_distribution_std :: "mat list"
  mu_g :: vec
  std_g :: vec

text \<open>
  \<^verbatim>\<open>init_pixel_hypothesises\<close>, one pixel: the combinations ranked by ascending colour
  distance (\<^verbatim>\<open>list.sort\<close> is stable), each seeded with the patch mean of its basis and
  the projected illumination.
\<close>

definition init_pixel :: "real list list list list \<Rightarrow> vec \<Rightarrow>
    error + (nat list \<times> nat list \<times> vec list \<times> real list)" where
  "init_pixel rs pixel =
     (let distances = map (\<lambda>(o', w). color_angle_distance pixel (mean_color_chart ! o' ! w))
                          MATERIALS_LIGHT_SOURCE_COMBINATIONS;
          hypothesises = sort_key (\<lambda>i. distances ! i) [0..<NUM_HYPOTHESISES]
      in case collect (\<lambda>h. init_g pixel
                 (mean_color_chart ! fst (MATERIALS_LIGHT_SOURCE_COMBINATIONS ! h)
                                   ! snd (MATERIALS_LIGHT_SOURCE_COMBINATIONS ! h))) hypothesises of
           Inl e \<Rightarrow> Inl e
         | Inr gs \<Rightarrow> Inr
            (map (\<lambda>h. fst (MATERIALS_LIGHT_SOURCE_COMBINATIONS ! h)) hypothesises,
             map (\<lambda>h. snd (MATERIALS_LIGHT_SOURCE_COMBINATIONS ! h)) hypothesises,
             map (\<lambda>h. map np_mean (rs ! fst (MATERIALS_LIGHT_SOURCE_COMBINATIONS ! h)
                                      ! snd (MATERIALS_LIGHT_SOURCE_COMBINATIONS ! h))) hypothesises,
             gs))"

definition init_pixel_hypothesises :: "real list list list list \<Rightarrow> vec list \<Rightarrow>
    error + (nat list list \<times> nat list list \<times> vec list list \<times> real list list)" where
  "init_pixel_hypothesises rs img' =
     (case collect (init_pixel rs) img' of
        Inl e \<Rightarrow> Inl e
      | Inr rows \<Rightarrow> Inr (map fst rows, map (fst \<circ> snd) rows,
                        map (fst \<circ> snd \<circ> snd) rows, map (snd \<circ> snd \<circ> snd) rows))"


subsection \<open>The illumination distribution per light source\<close>

text \<open>
  \<^verbatim>\<open>estimate_g_distriution(g, w)\<close>: mean and standard deviation of \<open>g\<close> over the entries
  whose \<open>w\<close> names the light source, and \<open>(0, 1)\<close> when there is none.
\<close>

definition pixels_predicting :: "nat list \<Rightarrow> nat \<Rightarrow> nat list" where
  "pixels_predicting w light_source = filter (\<lambda>i. w ! i = light_source) [0..<length w]"

definition estimate_g_distriution :: "vec \<Rightarrow> nat list \<Rightarrow> vec \<times> vec" where
  "estimate_g_distriution g w =
     (map (\<lambda>light_source.
             let pixels_predicting_light_source = pixels_predicting w light_source
             in if length pixels_predicting_light_source \<noteq> 0
                then np_mean (map (\<lambda>i. g ! i) pixels_predicting_light_source) else 0)
          [0..<NUM_LIGHT_SOURCES],
      map (\<lambda>light_source.
             let pixels_predicting_light_source = pixels_predicting w light_source
             in if length pixels_predicting_light_source \<noteq> 0
                then np_std (map (\<lambda>i. g ! i) pixels_predicting_light_source) else 1)
          [0..<NUM_LIGHT_SOURCES])"

text \<open>
  The distribution the notebook estimates once, before the loop, from the rank-0 entries
  of all pixels, and keeps in \<^verbatim>\<open>mu_g\<close> and \<^verbatim>\<open>std_g\<close>.
\<close>

definition init_g_distribution :: "real list list \<Rightarrow> nat list list \<Rightarrow> vec \<times> vec" where
  "init_g_distribution pixel_g' pixel_w' =
     estimate_g_distriution (map (\<lambda>row. row ! INDEX_BEST_HYPOTHESIS) pixel_g')
                            (map (\<lambda>row. row ! INDEX_BEST_HYPOTHESIS) pixel_w')"

subsection \<open>The reflectance and illumination estimators\<close>

text \<open>
  \<^verbatim>\<open>update_sigma\<close>. Python gives \<^verbatim>\<open>*\<close>, \<^verbatim>\<open>/\<close> and \<^verbatim>\<open>@\<close> one precedence and groups
  them from the left, so \<^verbatim>\<open>g * Sigma_o @ beta @ m\<close> is \<open>((g * Sigma_o) @ beta) @ m\<close>.
  \<^verbatim>\<open>sigma_p / g ** 2\<close> with \<open>g = 0\<close> fills the matrix with \<^verbatim>\<open>inf\<close> and \<^verbatim>\<open>nan\<close>.
\<close>

definition update_sigma :: "mat \<Rightarrow> real \<Rightarrow> mat \<Rightarrow> mat \<Rightarrow> vec \<Rightarrow> vec \<Rightarrow> error + vec" where
  "update_sigma sigma_p' g beta Sigma_o mu_o pixel =
     (if g ^ 2 = 0 then Inl NonFinite
      else case linalg_inv (madd (mdiv sigma_p' (g ^ 2))
                                 (matmul (matmul (mat_T beta) Sigma_o) beta)) of
        Inl e \<Rightarrow> Inl e
      | Inr K3 \<Rightarrow>
         (let K2 = matmul (matmul (smul g Sigma_o) beta)
                     (msub (np_eye NUM_COLORS)
                           (matmul (matmul (matmul K3 (mat_T beta)) Sigma_o) beta));
              K1 = msub (np_eye (NUM_COLORS * MODEL_DIMENSIONS))
                        (matmul (matmul (matmul Sigma_o beta) K3) (mat_T beta))
          in case linalg_inv sigma_p' of
               Inl e \<Rightarrow> Inl e
             | Inr sigma_p_inv \<Rightarrow>
                 Inr (vadd (matvec K1 mu_o) (matvec (matmul K2 sigma_p_inv) pixel))))"

text \<open>
  \<^verbatim>\<open>update_g\<close>. The function reads the light source \<open>w\<close> from the module-level variable
  the loop has just assigned; here it is an argument.
\<close>

definition update_g :: "nat \<Rightarrow> vec \<Rightarrow> vec \<Rightarrow> vec \<Rightarrow> mat \<Rightarrow> mat \<Rightarrow> vec \<Rightarrow> error + real" where
  "update_g w mu_g' cov_g pixel inverted_sigma_p S beta =
     (let g_nom = mu_g' ! w
            + dot (vecmat (vecmat (vsmul ((cov_g ! w) ^ 2) pixel) inverted_sigma_p) (mat_T S)) beta;
          g_denom = 1
            + dot (vecmat (vecmat (vecmat (vsmul ((cov_g ! w) ^ 2) beta) S) inverted_sigma_p)
                          (mat_T S)) beta
      in if g_denom = 0 then Inl NonFinite else Inr (g_nom / g_denom))"

subsection \<open>Reference formulas\<close>

text \<open>
  The Gaussian log-density of the design document for one dimension,
  \<open>-(k/2) ln(2\<pi>) - 0.5 ln|\<Sigma>| - 0.5 (x - \<mu>)\<^sup>t \<Sigma>\<^sup>-\<^sup>1 (x - \<mu>)\<close> with \<open>k = 1\<close> and
  \<open>\<Sigma> = \<sigma>\<^sup>2\<close>. It is not part of the notebook.
\<close>

text \<open>
  The reflectance update of the design document, with the products grouped as its
  formulas read: \<open>K3 = (\<Sigma>\<^sub>p / g\<^sup>2 + B\<^sup>t\<Sigma>\<^sub>oB)\<^sup>-\<^sup>1\<close>, \<open>K2 = g \<cdot> \<Sigma>\<^sub>oB \<cdot> (I - K3 \<cdot> B\<^sup>t\<Sigma>\<^sub>oB)\<close>,
  \<open>K1 = I - \<Sigma>\<^sub>oB \<cdot> K3 \<cdot> B\<^sup>t\<close>, and the result \<open>K1 \<cdot> \<mu>\<^sub>o + K2 \<cdot> \<Sigma>\<^sub>p\<^sup>-\<^sup>1 \<cdot> p\<close>.
\<close>

definition reflectance_estimate :: "mat \<Rightarrow> real \<Rightarrow> mat \<Rightarrow> mat \<Rightarrow> vec \<Rightarrow> vec \<Rightarrow> error + vec" where
  "reflectance_estimate Sigma_p g B Sigma_o mu_o p =
     (case linalg_inv (madd (mdiv Sigma_p (g ^ 2)) (matmul (mat_T B) (matmul Sigma_o B))) of
        Inl e \<Rightarrow> Inl e
      | Inr K3 \<Rightarrow>
         (case linalg_inv Sigma_p of
            Inl e \<Rightarrow> Inl e
          | Inr Sigma_p_inv \<Rightarrow>
             (let K2 = smul g (matmul (matmul Sigma_o B)
                          (msub (np_eye NUM_COLORS)
                                (matmul K3 (matmul (mat_T B) (matmul Sigma_o B)))));
                  K1 = msub (np_eye (NUM_COLORS * MODEL_DIMENSIONS))
                            (matmul (matmul Sigma_o B) (matmul K3 (mat_T B)))
              in Inr (vadd (matvec K1 mu_o) (matvec K2 (matvec Sigma_p_inv p))))))"

text \<open>A matrix of \<open>r\<close> rows of \<open>c\<close> entries each.\<close>

definition wf_mat :: "nat \<Rightarrow> nat \<Rightarrow> mat \<Rightarrow> bool" where
  "wf_mat r c a \<longleftrightarrow> length a = r \<and> list_all (\<lambda>row. length row = c) a"

definition gaussian_log_density_1d :: "real \<Rightarrow> real \<Rightarrow> real \<Rightarrow> real" where
  "gaussian_log_density_1d x mu sd =
     - (1 / 2) * ln (2 * pi) - 0.5 * ln (sd ^ 2) - 0.5 * (x - mu) ^ 2 / sd ^ 2"

subsection \<open>The spectrum estimator\<close>

text \<open>
  The body of the loop of \<^verbatim>\<open>update_betas\<close> for one light source: the pixels whose
  rank-0 hypothesis names it are accumulated into \<open>h\<close> and \<open>b\<close>, the prior is added
  scaled by their number, and \<^verbatim>\<open>np.linalg.inv(h) @ b\<close> is the new spectrum.
\<close>

definition update_beta :: "vec list \<Rightarrow> nat list list \<Rightarrow> vec list list \<Rightarrow> real list list \<Rightarrow>
    vec list \<Rightarrow> mat list \<Rightarrow> mat \<Rightarrow> nat \<Rightarrow> error + vec" where
  "update_beta img' pixel_w' pixel_sigma' pixel_g' beta_distribution_mean'
       beta_distribution_std' sigma_p' light_source =
     (let pixels_predicting_light_source =
            pixels_predicting (map (\<lambda>row. row ! INDEX_BEST_HYPOTHESIS) pixel_w') light_source;
          mu_beta = beta_distribution_mean' ! light_source;
          Sigma_beta = beta_distribution_std' ! light_source
      in case linalg_inv Sigma_beta of
           Inl e \<Rightarrow> Inl e
         | Inr Sigma_beta_inv \<Rightarrow>
            (let hb = foldl (\<lambda>(h, b) pix.
                         let S = reshape MODEL_DIMENSIONS NUM_COLORS (pixel_sigma' ! pix ! 0);
                             pixel = img' ! pix
                         in (madd h (matmul (matmul (smul ((pixel_g' ! pix ! 0) ^ 2) S) sigma_p')
                                            (mat_T S)),
                             vadd b (matvec (matmul (smul (pixel_g' ! pix ! 0) S) sigma_p') pixel)))
                       (np_zeros MODEL_DIMENSIONS MODEL_DIMENSIONS, replicate MODEL_DIMENSIONS 0)
                       pixels_predicting_light_source;
                 h = madd (fst hb)
                       (smul (real (length pixels_predicting_light_source)) Sigma_beta_inv);
                 b = vadd (snd hb)
                       (vsmul (real (length pixels_predicting_light_source))
                              (matvec Sigma_beta_inv mu_beta))
             in case linalg_inv h of
                  Inl e \<Rightarrow> Inl e
                | Inr h_inv \<Rightarrow> Inr (matvec h_inv b)))"

text \<open>The assignment \<^verbatim>\<open>beta_hats[light_source, :, image_index] = v\<close>.\<close>

definition set_beta :: "'v list list list \<Rightarrow> nat \<Rightarrow> nat \<Rightarrow> 'v list \<Rightarrow> 'v list list list" where
  "set_beta bh light_source idx v =
     bh[light_source := map2 (\<lambda>row x. row[idx := x]) (bh ! light_source) v]"

subsection \<open>The likelihood evaluator\<close>

text \<open>
  \<^verbatim>\<open>log_N_multidim\<close>: \<^verbatim>\<open>math.log\<close> raises ValueError at 0, which is evaluated before
  the inverse.
\<close>

definition log_N_multidim :: "vec \<Rightarrow> vec \<Rightarrow> mat \<Rightarrow> error + real" where
  "log_N_multidim val mu cov =
     (let dims = length cov in
      if \<bar>linalg_det cov\<bar> = 0 then Inl ValueError
      else case linalg_inv cov of
        Inl e \<Rightarrow> Inl e
      | Inr cov_inv \<Rightarrow>
          Inr (- real dims / 2 * ln (2 * pi) - 0.5 * ln \<bar>linalg_det cov\<bar>
               + (- 0.5 * dot (vecmat (vsub val mu) cov_inv) (vsub val mu))))"

text \<open>\<^verbatim>\<open>log_N_singledim\<close>: \<^verbatim>\<open>1 / std\<close> is \<^verbatim>\<open>inf\<close> for a zero \<^verbatim>\<open>std\<close>.\<close>

definition log_N_singledim :: "real \<Rightarrow> real \<Rightarrow> real \<Rightarrow> error + real" where
  "log_N_singledim val mu std =
     (if std = 0 then Inl NonFinite
      else Inr (- 0.5 * ln (2 * pi) - 0.5 * std + (- 0.5 * (1 / std) * (val - mu) ^ 2)))"

definition beta_of :: "'v list list list \<Rightarrow> nat \<Rightarrow> nat \<Rightarrow> 'v list" where
  "beta_of bh w idx = map (\<lambda>row. row ! idx) (bh ! w)"

text \<open>The body of the double loop of \<^verbatim>\<open>calc_log_likelihoods\<close>, at pixel \<open>pix\<close>, rank \<open>hi\<close>.\<close>

definition log_likelihood :: "globals \<Rightarrow> real hypotheses \<Rightarrow> nat \<Rightarrow> nat \<Rightarrow> error + real" where
  "log_likelihood env st pix hi =
     (let pixel = img env ! pix;
          o' = pixel_o st ! pix ! hi;
          w = pixel_w st ! pix ! hi;
          S = reshape MODEL_DIMENSIONS NUM_COLORS (pixel_sigma st ! pix ! hi)
      in case log_N_multidim pixel
                (matvec (smul (pixel_g st ! pix ! hi) (mat_T S))
                        (beta_of (beta_hats st) w (image_index env)))
                sigma_p of
           Inl e \<Rightarrow> Inl e
         | Inr p_p \<Rightarrow>
        (case log_N_multidim (pixel_sigma st ! pix ! hi) (sigma_distribution_mean env ! o')
                (sigma_distribution_std env ! o') of
           Inl e \<Rightarrow> Inl e
         | Inr p_S \<Rightarrow>
        (case log_N_singledim (pixel_g st ! pix ! hi) (mu_g env ! w) (std_g env ! w) of
           Inl e \<Rightarrow> Inl e
         | Inr p_g \<Rightarrow>
        (case log_N_multidim (beta_of (beta_hats st) w (image_index env))
                (beta_distribution_mean env ! w) (beta_distribution_std env ! w) of
           Inl e \<Rightarrow> Inl e
         | Inr p_beta \<Rightarrow> Inr (p_p + p_beta + p_S + p_g + p_w ! w + p_o ! o')))))"

subsection \<open>The hypothesis pruner\<close>

text \<open>\<^verbatim>\<open>a.shape[1]\<close> of a two-dimensional array with at least one row.\<close>

definition shape1 :: "'a list list \<Rightarrow> nat" where
  "shape1 a = (case a of [] \<Rightarrow> 0 | r # _ \<Rightarrow> length r)"

text \<open>
  \<^verbatim>\<open>list(sorted(range(n), key=lambda i: likelihoods[pi, i]))[:-1]\<close>: Python's sort is
  stable and ascending, as \<open>sort_key\<close> is; the slice drops the last entry. The keys are
  reals, or float64 entries in the loop; there a key that is not finite (\<^verbatim>\<open>-inf\<close> after
  a division by a zero standard deviation, or \<^verbatim>\<open>nan\<close>) is ordered before every real, as
  \<^verbatim>\<open>-inf\<close> is, and a row whose keys are all equal, or all \<^verbatim>\<open>-inf\<close> or \<^verbatim>\<open>nan\<close>, keeps its
  order, as it does in CPython.
\<close>

definition sorted_likelihoods :: "('k :: linorder) list list \<Rightarrow> nat \<Rightarrow> nat \<Rightarrow> nat list" where
  "sorted_likelihoods likelihoods pix n =
     butlast (sort_key (\<lambda>i. likelihoods ! pix ! i) [0..<n])"

text \<open>numpy's index-array read \<^verbatim>\<open>a[pi, idx]\<close>.\<close>

definition fancy :: "'a list list \<Rightarrow> nat \<Rightarrow> nat list \<Rightarrow> 'a list" where
  "fancy a pix idx = map (\<lambda>i. a ! pix ! i) idx"

text \<open>
  \<^verbatim>\<open>update_hypothesises\<close>. \<^verbatim>\<open>np.ndarray((NUM_PIXEL, n - 1))\<close> raises ValueError for a
  negative dimension, that is when no hypothesis is left. The rows of \<^verbatim>\<open>pixel_sigma\<close>
  hold \<^verbatim>\<open>MODEL_DIMENSIONS * NUM_COLORS\<close> entries, as the array they are copied to does.
\<close>

definition update_hypothesises ::
  "nat \<Rightarrow> ('k :: linorder) list list \<Rightarrow> nat list list \<Rightarrow> nat list list \<Rightarrow> 'v list list list \<Rightarrow>
   'v list list \<Rightarrow>
   error + (nat list list \<times> nat list list \<times> 'v list list list \<times> 'v list list)" where
  "update_hypothesises NUM_PIXEL' likelihoods pixel_o' pixel_w' pixel_sigma' pixel_g' =
     (let num_hypothesises_remaining = shape1 pixel_o' in
      if num_hypothesises_remaining = 0 then Inl ValueError
      else Inr
        (map (\<lambda>pix. fancy pixel_o' pix
                 (sorted_likelihoods likelihoods pix num_hypothesises_remaining)) [0..<NUM_PIXEL'],
         map (\<lambda>pix. fancy pixel_w' pix
                 (sorted_likelihoods likelihoods pix num_hypothesises_remaining)) [0..<NUM_PIXEL'],
         map (\<lambda>pix. fancy pixel_sigma' pix
                 (sorted_likelihoods likelihoods pix num_hypothesises_remaining)) [0..<NUM_PIXEL'],
         map (\<lambda>pix. fancy pixel_g' pix
                 (sorted_likelihoods likelihoods pix num_hypothesises_remaining)) [0..<NUM_PIXEL']))"

subsection \<open>The window scheduler\<close>

record config =
  MACRO_REGION_X :: "int \<times> int"
  MACRO_REGION_Y :: "int \<times> int"
  WINDOW_X_SIZE :: int
  WINDOW_Y_SIZE :: int
  OVERLAPPING :: int

text \<open>The values the notebook assigns.\<close>

definition notebook_config :: config where
  "notebook_config = \<lparr>MACRO_REGION_X = (0, 600), MACRO_REGION_Y = (0, 600),
     WINDOW_X_SIZE = 50, WINDOW_Y_SIZE = 50, OVERLAPPING = 25\<rparr>"

definition flatten_indizes :: "int \<Rightarrow> int \<Rightarrow> int \<Rightarrow> int \<Rightarrow> int \<Rightarrow> int list" where
  "flatten_indizes x_start x_end y_start y_end width =
     concat (map (\<lambda>px. map (\<lambda>py. py * width + px) [y_start..y_end - 1]) [x_start..x_end - 1])"

text \<open>
  The window origins in the order the two nested \<^verbatim>\<open>for\<close> loops visit them: \<open>window_x\<close>
  in the outer loop, \<open>window_y\<close> in the inner one, both with the step
  \<^verbatim>\<open>WINDOW_X_SIZE - OVERLAPPING\<close> and both ranges ending at the region's end inclusive.
\<close>

definition window_origins :: "config \<Rightarrow> error + (int \<times> int) list" where
  "window_origins cfg =
     (case py_range (fst (MACRO_REGION_X cfg)) (snd (MACRO_REGION_X cfg) + 1)
                    (WINDOW_X_SIZE cfg - OVERLAPPING cfg) of
        Inl e \<Rightarrow> Inl e
      | Inr xs \<Rightarrow>
       (case py_range (fst (MACRO_REGION_Y cfg)) (snd (MACRO_REGION_Y cfg) + 1)
                      (WINDOW_X_SIZE cfg - OVERLAPPING cfg) of
          Inl e \<Rightarrow> Inl e
        | Inr ys \<Rightarrow> Inr (List.product xs ys)))"

text \<open>\<^verbatim>\<open>pixel_indizes_patch\<close> of the window at \<open>(window_x, window_y)\<close>.\<close>

definition window_patch :: "config \<Rightarrow> int \<Rightarrow> int \<Rightarrow> int \<times> int \<Rightarrow> int list" where
  "window_patch cfg width height origin =
     flatten_indizes (fst origin) (min (fst origin + WINDOW_X_SIZE cfg) width)
                     (snd origin) (min (snd origin + WINDOW_Y_SIZE cfg) height) width"

text \<open>
  A flattened index lies inside the region of interest when its column and row lie in
  the region's half-open ranges, the ones \<^verbatim>\<open>write_segmented_image\<close> slices by.
\<close>

definition inside_region :: "config \<Rightarrow> int \<Rightarrow> int \<Rightarrow> bool" where
  "inside_region cfg width idx =
     (fst (MACRO_REGION_X cfg) \<le> idx mod width \<and> idx mod width < snd (MACRO_REGION_X cfg) \<and>
      fst (MACRO_REGION_Y cfg) \<le> idx div width \<and> idx div width < snd (MACRO_REGION_Y cfg))"

subsection \<open>The convergence loop\<close>

text \<open>
  The zero-padded matrix that holds \<open>beta_old\<close> once per colour channel:
  \<^verbatim>\<open>beta_matrix[i * MODEL_DIMENSIONS:(i + 1) * MODEL_DIMENSIONS, i] = beta_old\<close>.
\<close>

definition beta_matrix :: "vec \<Rightarrow> mat" where
  "beta_matrix beta_old =
     map (\<lambda>r. map (\<lambda>i. if i * MODEL_DIMENSIONS \<le> r \<and> r < (i + 1) * MODEL_DIMENSIONS
                        then beta_old ! (r - i * MODEL_DIMENSIONS) else 0) [0..<NUM_COLORS])
         [0..<NUM_COLORS * MODEL_DIMENSIONS]"

text \<open>
  The innermost loop body, for hypothesis \<open>hi\<close> of pixel \<open>pix\<close>, on real values. \<open>S\<close> is
  a numpy view of \<^verbatim>\<open>pixel_sigma[pi, hi]\<close>, so after the assignment of the new reflectance
  \<^verbatim>\<open>update_g\<close> reads the new values through it.
\<close>

definition refine_hypothesis :: "globals \<Rightarrow> vec \<Rightarrow> vec \<Rightarrow> nat \<Rightarrow> nat \<Rightarrow> real hypotheses \<Rightarrow>
    error + real hypotheses" where
  "refine_hypothesis env mu_g_patch std_g_patch pix hi st =
     (let pixel = img env ! pix;
          w = pixel_w st ! pix ! hi;
          o' = pixel_o st ! pix ! hi;
          beta_old = beta_of (beta_hats st) w (image_index env)
      in case update_sigma sigma_p (pixel_g st ! pix ! hi) (beta_matrix beta_old)
                (sigma_distribution_std env ! o') (sigma_distribution_mean env ! o') pixel of
           Inl e \<Rightarrow> Inl e
         | Inr sigma_new \<Rightarrow>
            (let st1 = st\<lparr>pixel_sigma :=
                           (pixel_sigma st)[pix := (pixel_sigma st ! pix)[hi := sigma_new]]\<rparr>;
                 S = reshape MODEL_DIMENSIONS NUM_COLORS sigma_new
             in case update_g w mu_g_patch std_g_patch pixel invered_sigma_p S beta_old of
                  Inl e \<Rightarrow> Inl e
                | Inr g_new \<Rightarrow>
                    Inr (st1\<lparr>pixel_g := (pixel_g st1)[pix := (pixel_g st1 ! pix)[hi := g_new]]\<rparr>)))"

subsection \<open>Values that are not finite\<close>

text \<open>
  An entry of a float64 array in the loop: a real, or \<open>None\<close> for a value that is not
  finite (\<^verbatim>\<open>inf\<close>, \<^verbatim>\<open>-inf\<close> or \<^verbatim>\<open>nan\<close>). Where a function above returns \<open>NonFinite\<close>, numpy
  warns and the notebook stores what it got; an operation that reads a value that is
  not finite produces values that are not finite, without raising. (Where LAPACK would
  find a matrix with an infinite entry singular, the notebook stops with LinAlgError and
  this model goes on; it then completes a pass the notebook does not.)
\<close>

type_synonym float64 = "real option"

definition isfinite :: "float64 list \<Rightarrow> bool" where
  "isfinite v \<longleftrightarrow> list_all (\<lambda>x. x \<noteq> None) v"

text \<open>The real a finite entry holds (\<^verbatim>\<open>np.nan_to_num\<close> turns \<^verbatim>\<open>nan\<close> into 0).\<close>

definition nan_to_num :: "float64 \<Rightarrow> real" where
  "nan_to_num x = (case x of Some r \<Rightarrow> r | None \<Rightarrow> 0)"

text \<open>What is stored for the result of a function called on finite arguments.\<close>

definition stored :: "error + real \<Rightarrow> error + float64" where
  "stored r = (case r of Inr v \<Rightarrow> Inr (Some v) | Inl NonFinite \<Rightarrow> Inr None | Inl e \<Rightarrow> Inl e)"

definition stored_vec :: "nat \<Rightarrow> error + vec \<Rightarrow> error + float64 list" where
  "stored_vec n r =
     (case r of Inr v \<Rightarrow> Inr (map Some v) | Inl NonFinite \<Rightarrow> Inr (replicate n None)
      | Inl e \<Rightarrow> Inl e)"

text \<open>
  \<^verbatim>\<open>estimate_g_distriution\<close> on float64 entries: the mean and the standard deviation of
  a light source are finite when all the entries that vote for it are.
\<close>

definition estimate_g_distriution_f64 :: "float64 list \<Rightarrow> nat list \<Rightarrow> float64 list \<times> float64 list" where
  "estimate_g_distriution_f64 g w =
     (let dist = estimate_g_distriution (map nan_to_num g) w;
          votes_finite = (\<lambda>light_source.
             isfinite (map (\<lambda>i. g ! i) (pixels_predicting w light_source)))
      in (map (\<lambda>light_source. if votes_finite light_source then Some (fst dist ! light_source)
                               else None) [0..<NUM_LIGHT_SOURCES],
          map (\<lambda>light_source. if votes_finite light_source then Some (snd dist ! light_source)
                               else None) [0..<NUM_LIGHT_SOURCES]))"

text \<open>
  The innermost loop body on float64 entries. \<^verbatim>\<open>update_sigma\<close> reads \<open>g\<close> and the
  spectrum; \<^verbatim>\<open>update_g\<close> reads the window's distribution for \<open>w\<close>, the new reflectance
  (through the view \<open>S\<close>) and the spectrum. Each result is stored, finite or not.
\<close>

definition refine_hypothesis_f64 :: "globals \<Rightarrow> float64 list \<Rightarrow> float64 list \<Rightarrow> nat \<Rightarrow> nat \<Rightarrow>
    float64 hypotheses \<Rightarrow> error + float64 hypotheses" where
  "refine_hypothesis_f64 env mu_g_patch std_g_patch pix hi st =
     (let pixel = img env ! pix;
          w = pixel_w st ! pix ! hi;
          o' = pixel_o st ! pix ! hi;
          beta_old = beta_of (beta_hats st) w (image_index env);
          g = pixel_g st ! pix ! hi
      in case (if isfinite (g # beta_old)
               then stored_vec (NUM_COLORS * MODEL_DIMENSIONS)
                      (update_sigma sigma_p (nan_to_num g) (beta_matrix (map nan_to_num beta_old))
                         (sigma_distribution_std env ! o') (sigma_distribution_mean env ! o')
                         pixel)
               else Inr (replicate (NUM_COLORS * MODEL_DIMENSIONS) None)) of
           Inl e \<Rightarrow> Inl e
         | Inr sigma_new \<Rightarrow>
            (let st1 = st\<lparr>pixel_sigma :=
                           (pixel_sigma st)[pix := (pixel_sigma st ! pix)[hi := sigma_new]]\<rparr>
             in case (if isfinite (mu_g_patch ! w # std_g_patch ! w # sigma_new @ beta_old)
                      then stored (update_g w (map nan_to_num mu_g_patch)
                                     (map nan_to_num std_g_patch) pixel invered_sigma_p
                                     (reshape MODEL_DIMENSIONS NUM_COLORS
                                        (map nan_to_num sigma_new))
                                     (map nan_to_num beta_old))
                      else Inr None) of
                  Inl e \<Rightarrow> Inl e
                | Inr g_new \<Rightarrow>
                    Inr (st1\<lparr>pixel_g := (pixel_g st1)[pix := (pixel_g st1 ! pix)[hi := g_new]]\<rparr>)))"

text \<open>One window: its local illumination distribution, then every pixel and hypothesis.\<close>

definition window_step :: "globals \<Rightarrow> config \<Rightarrow> nat \<Rightarrow> int \<times> int \<Rightarrow> float64 hypotheses \<Rightarrow>
    error + float64 hypotheses" where
  "window_step env cfg num_hypothesises_remaining origin st =
     (case collect (np_index (NUM_PIXEL env))
             (window_patch cfg (img_width env) (img_height env) origin) of
        Inl e \<Rightarrow> Inl e
      | Inr pixel_indizes_patch \<Rightarrow>
         (let patch_dist = estimate_g_distriution_f64
                 (map (\<lambda>pix. pixel_g st ! pix ! INDEX_BEST_HYPOTHESIS) pixel_indizes_patch)
                 (map (\<lambda>pix. pixel_w st ! pix ! INDEX_BEST_HYPOTHESIS) pixel_indizes_patch)
          in for_each (\<lambda>pix. for_each (refine_hypothesis_f64 env (fst patch_dist)
                                          (snd patch_dist) pix)
                                [0..<num_hypothesises_remaining])
               pixel_indizes_patch st))"

text \<open>
  The score of one hypothesis on float64 entries. Whether \<^verbatim>\<open>log_likelihood\<close> raises or
  divides by zero depends on the covariances and on \<^verbatim>\<open>std_g\<close> only; its value is finite
  when the entries it reads are.
\<close>

definition finite_part :: "float64 hypotheses \<Rightarrow> real hypotheses" where
  "finite_part st =
     \<lparr>pixel_o = pixel_o st, pixel_w = pixel_w st,
      pixel_sigma = map (map (map nan_to_num)) (pixel_sigma st),
      pixel_g = map (map nan_to_num) (pixel_g st),
      beta_hats = map (map (map nan_to_num)) (beta_hats st)\<rparr>"

definition log_likelihood_f64 :: "globals \<Rightarrow> float64 hypotheses \<Rightarrow> nat \<Rightarrow> nat \<Rightarrow> error + float64" where
  "log_likelihood_f64 env st pix hi =
     (case stored (log_likelihood env (finite_part st) pix hi) of
        Inl e \<Rightarrow> Inl e
      | Inr v \<Rightarrow>
          if isfinite (pixel_g st ! pix ! hi # pixel_sigma st ! pix ! hi
                       @ beta_of (beta_hats st) (pixel_w st ! pix ! hi) (image_index env))
          then Inr v else Inr None)"

definition calc_log_likelihoods :: "globals \<Rightarrow> float64 hypotheses \<Rightarrow> nat \<Rightarrow>
    error + float64 list list" where
  "calc_log_likelihoods env st num_hypothesises_remaining =
     collect (\<lambda>pix. collect (log_likelihood_f64 env st pix) [0..<num_hypothesises_remaining])
       [0..<length (img env)]"

text \<open>
  \<^verbatim>\<open>update_betas\<close> on float64 entries. The prior covariance is inverted before the
  pixels are read; the new spectrum is finite when the rank-0 entries of the voting
  pixels are.
\<close>

definition update_beta_f64 :: "vec list \<Rightarrow> nat list list \<Rightarrow> float64 list list list \<Rightarrow>
    float64 list list \<Rightarrow> vec list \<Rightarrow> mat list \<Rightarrow> mat \<Rightarrow> nat \<Rightarrow> error + float64 list" where
  "update_beta_f64 img' pixel_w' pixel_sigma' pixel_g' beta_distribution_mean'
       beta_distribution_std' sigma_p' light_source =
     (let pixels_predicting_light_source =
            pixels_predicting (map (\<lambda>row. row ! INDEX_BEST_HYPOTHESIS) pixel_w') light_source
      in case linalg_inv (beta_distribution_std' ! light_source) of
           Inl e \<Rightarrow> Inl e
         | Inr Sigma_beta_inv \<Rightarrow>
             if isfinite (concat (map (\<lambda>pix. pixel_g' ! pix ! 0 # pixel_sigma' ! pix ! 0)
                                      pixels_predicting_light_source))
             then stored_vec MODEL_DIMENSIONS
                    (update_beta img' pixel_w' (map (map (map nan_to_num)) pixel_sigma')
                       (map (map nan_to_num) pixel_g') beta_distribution_mean'
                       beta_distribution_std' sigma_p' light_source)
             else Inr (replicate MODEL_DIMENSIONS None))"

definition update_betas :: "vec list \<Rightarrow> nat \<Rightarrow> float64 list list list \<Rightarrow> nat list list \<Rightarrow>
    float64 list list list \<Rightarrow> float64 list list \<Rightarrow> vec list \<Rightarrow> mat list \<Rightarrow> mat \<Rightarrow>
    error + float64 list list list" where
  "update_betas img' image_index' beta_hats' pixel_w' pixel_sigma' pixel_g'
       beta_distribution_mean' beta_distribution_std' sigma_p' =
     for_each (\<lambda>light_source bh.
         case update_beta_f64 img' pixel_w' pixel_sigma' pixel_g' beta_distribution_mean'
                beta_distribution_std' sigma_p' light_source of
           Inl e \<Rightarrow> Inl e
         | Inr v \<Rightarrow> Inr (set_beta bh light_source image_index' v))
       [0..<NUM_LIGHT_SOURCES] beta_hats'"

text \<open>
  One pass of the \<^verbatim>\<open>for iteration in range(NUM_HYPOTHESISES - 1)\<close> loop: the windows, the
  likelihoods, the spectra, the pruning. Writing the mask images is left out.
\<close>

definition iteration_step :: "globals \<Rightarrow> config \<Rightarrow> nat \<Rightarrow> float64 hypotheses \<Rightarrow>
    error + float64 hypotheses" where
  "iteration_step env cfg iteration st =
     (let num_hypothesises_remaining = NUM_HYPOTHESISES - iteration
      in case window_origins cfg of
           Inl e \<Rightarrow> Inl e
         | Inr origins \<Rightarrow>
        (case for_each (window_step env cfg num_hypothesises_remaining) origins st of
           Inl e \<Rightarrow> Inl e
         | Inr st1 \<Rightarrow>
        (case calc_log_likelihoods env st1 num_hypothesises_remaining of
           Inl e \<Rightarrow> Inl e
         | Inr likelihoods \<Rightarrow>
        (case update_betas (img env) (image_index env) (beta_hats st1) (pixel_w st1)
                (pixel_sigma st1) (pixel_g st1) (beta_distribution_mean env)
                (beta_distribution_std env) sigma_p of
           Inl e \<Rightarrow> Inl e
         | Inr bh \<Rightarrow>
        (case update_hypothesises (NUM_PIXEL env) likelihoods (pixel_o st1) (pixel_w st1)
                (pixel_sigma st1) (pixel_g st1) of
           Inl e \<Rightarrow> Inl e
         | Inr (po, pw, ps, pg) \<Rightarrow>
             Inr \<lparr>pixel_o = po, pixel_w = pw, pixel_sigma = ps, pixel_g = pg,
                  beta_hats = bh\<rparr>)))))"

text \<open>The first \<open>k\<close> passes of the loop; the notebook runs \<open>NUM_HYPOTHESISES - 1\<close>.\<close>

definition iterations :: "globals \<Rightarrow> config \<Rightarrow> nat \<Rightarrow> float64 hypotheses \<Rightarrow>
    error + float64 hypotheses" where
  "iterations env cfg k st = for_each (iteration_step env cfg) [0..<k] st"

text \<open>
  The notebook's main cell for one image, up to the end of pass \<open>k\<close>: the hypotheses are
  initialised, the global illumination distribution is estimated from their rank-0
  entries and assigned to \<^verbatim>\<open>mu_g\<close> and \<^verbatim>\<open>std_g\<close>, and the loop starts from the initial
  hypotheses and the spectra \<^verbatim>\<open>estimate_beta_hats\<close> has returned.
\<close>

definition convergence_loop :: "globals \<Rightarrow> config \<Rightarrow> real list list list \<Rightarrow> nat \<Rightarrow>
    error + float64 hypotheses" where
  "convergence_loop env cfg beta_hats' k =
     (case init_pixel_hypothesises (Rs env) (img env) of
        Inl e \<Rightarrow> Inl e
      | Inr (po, pw, ps, pg) \<Rightarrow>
          (let dist = init_g_distribution pg pw
           in iterations (env\<lparr>mu_g := fst dist, std_g := snd dist\<rparr>) cfg k
                \<lparr>pixel_o = po, pixel_w = pw, pixel_sigma = map (map (map Some)) ps,
                 pixel_g = map (map Some) pg,
                 beta_hats = map (map (map Some)) beta_hats'\<rparr>))"

subsection \<open>Example data\<close>

text \<open>An image of one black pixel with unit priors.\<close>

definition black_pixel_globals :: globals where
  "black_pixel_globals =
     \<lparr>img = [[0, 0, 0]], NUM_PIXEL = 1, img_width = 1, img_height = 1, image_index = 0,
      Rs = replicate 4 (replicate 2 (replicate 6 [0])),
      sigma_distribution_mean = replicate 4 (replicate 6 0),
      sigma_distribution_std = replicate 4 (np_eye 6),
      beta_distribution_mean = replicate 2 [1, 1],
      beta_distribution_std = replicate 2 (np_eye 2),
      mu_g = [0, 0], std_g = [1, 1]\<rparr>"

text \<open>
  An image of two pixels that are both nearest to the first entry of the mean colour
  chart, with the hypotheses \<^verbatim>\<open>init_pixel_hypothesises\<close> gives them, the globals with
  the illumination distribution estimated from these, and windows of one pixel.
\<close>

definition two_pixel_image :: "vec list" where
  "two_pixel_image = [[92, 190, 120], [46, 95, 60]]"

definition zero_Rs :: "real list list list list" where
  "zero_Rs = replicate 4 (replicate 2 (replicate 6 [0]))"

definition two_pixel_start :: "real hypotheses" where
  "two_pixel_start =
     \<lparr>pixel_o = [[0, 3, 1, 2, 3, 2, 0, 1], [0, 3, 2, 1, 3, 2, 0, 1]],
      pixel_w = [[0, 0, 0, 0, 1, 1, 1, 1], [0, 0, 0, 0, 1, 1, 1, 1]],
      pixel_sigma = [replicate 8 (replicate 6 0), replicate 8 (replicate 6 0)],
      pixel_g =
        [[58964 / sqrt 58964, 65960 / sqrt 85000, 81400 / sqrt 117125, 76060 / sqrt 108100,
          84430 / sqrt 131750, 98370 / sqrt 174150, 102050 / sqrt 192550,
          102510 / sqrt 195075],
         [29482 / sqrt 58964, 32980 / sqrt 85000, 38030 / sqrt 108100, 40700 / sqrt 117125,
          42215 / sqrt 131750, 49185 / sqrt 174150, 51025 / sqrt 192550,
          51255 / sqrt 195075]],
      beta_hats = [[[1], [0]], [[1], [0]]]\<rparr>"

definition two_pixel_globals :: globals where
  "two_pixel_globals =
     \<lparr>img = two_pixel_image, NUM_PIXEL = 2, img_width = 2, img_height = 1, image_index = 0,
      Rs = zero_Rs,
      sigma_distribution_mean = replicate 4 (replicate 6 0),
      sigma_distribution_std = replicate 4 (np_eye 6),
      beta_distribution_mean = replicate 2 [1, 0],
      beta_distribution_std = replicate 2 (np_eye 2),
      mu_g = fst (init_g_distribution (pixel_g two_pixel_start) (pixel_w two_pixel_start)),
      std_g = snd (init_g_distribution (pixel_g two_pixel_start) (pixel_w two_pixel_start))\<rparr>"

definition single_pixel_windows :: config where
  "single_pixel_windows = \<lparr>MACRO_REGION_X = (0, 1), MACRO_REGION_Y = (0, 0),
     WINDOW_X_SIZE = 1, WINDOW_Y_SIZE = 1, OVERLAPPING = 0\<rparr>"

text \<open>
  Hypotheses whose scores can be followed by hand: two black pixels, unit prior
  covariances, zero reflectance and illumination 1. \<open>quiet_state n\<close> holds \<open>n\<close>
  hypotheses per pixel, \<open>quiet_score\<close> is the score every one of them gets.
\<close>

definition quiet_globals :: globals where
  "quiet_globals =
     \<lparr>img = [[0, 0, 0], [0, 0, 0]], NUM_PIXEL = 2, img_width = 2, img_height = 1,
      image_index = 0, Rs = zero_Rs,
      sigma_distribution_mean = replicate 4 (replicate 6 0),
      sigma_distribution_std = replicate 4 (np_eye 6),
      beta_distribution_mean = replicate 2 [1, 0],
      beta_distribution_std = replicate 2 (np_eye 2),
      mu_g = [1, 1], std_g = [1, 1]\<rparr>"

definition quiet_state :: "nat \<Rightarrow> real hypotheses" where
  "quiet_state n =
     \<lparr>pixel_o = [take n [0, 3, 2, 1, 3, 2, 0, 1], take n [1, 0, 2, 3, 0, 1, 2, 3]],
      pixel_w = [take n [0, 0, 0, 0, 1, 1, 1, 1], take n [1, 1, 1, 1, 0, 0, 0, 0]],
      pixel_sigma = replicate 2 (replicate n (replicate 6 0)),
      pixel_g = replicate 2 (replicate n 1),
      beta_hats = replicate 2 [[1], [0]]\<rparr>"

definition quiet_score :: real where
  "quiet_score = (- real 3 / 2 * ln (2 * pi) - 0.5 * ln \<bar>1000\<bar>)
      + (- real 2 / 2 * ln (2 * pi) - 0.5 * ln \<bar>1\<bar>)
      + (- real 6 / 2 * ln (2 * pi) - 0.5 * ln \<bar>1\<bar>)
      + (- 0.5 * ln (2 * pi) - 0.5 * 1 + (- 0.5 * (1 / 1) * (1 - 1) ^ 2))
      + 1 / 2 + 1 / 4"













text \<open>A region of 4 by 4 pixels in an image of 8 by 8, windows of 4 overlapping by 2.\<close>

definition small_config :: config where
  "small_config = \<lparr>MACRO_REGION_X = (0, 4), MACRO_REGION_Y = (0, 4),
     WINDOW_X_SIZE = 4, WINDOW_Y_SIZE = 4, OVERLAPPING = 2\<rparr>"

section \<open>Properties\<close>

subsection \<open>The pruner\<close>

text \<open>
  What the pruner keeps, for any likelihood table: of \<open>n > 0\<close> hypotheses of a pixel it
  keeps all but one, in ascending order of likelihood, and the one it leaves out has
  a likelihood no other hypothesis exceeds.
\<close>

lemma sorted_likelihoods_keeps_all_but_a_maximum:
  assumes "0 < n"
  shows "\<exists>m<n. set (sorted_likelihoods likelihoods pix n) = {0..<n} - {m}
           \<and> distinct (sorted_likelihoods likelihoods pix n)
           \<and> sorted (map (\<lambda>i. likelihoods ! pix ! i) (sorted_likelihoods likelihoods pix n))
           \<and> (\<forall>i<n. likelihoods ! pix ! i \<le> likelihoods ! pix ! m)"
proof -
  define key where "key = (\<lambda>i. likelihoods ! pix ! i)"
  define xs where "xs = sort_key key [0..<n]"
  define ys where "ys = butlast xs"
  define m where "m = last xs"
  have set_xs: "set xs = {0..<n}" and dist: "distinct xs" and srt: "sorted (map key xs)"
    by (simp_all add: xs_def)
  have "0 \<in> set xs"
    using assms by (simp add: set_xs)
  then have ne: "xs \<noteq> []"
    by auto
  have split: "xs = ys @ [m]"
    using ne by (simp add: ys_def m_def)
  have notin: "m \<notin> set ys" and db: "distinct ys"
    using dist by (simp_all add: split)
  have sb: "sorted (map key ys)" and mx: "\<forall>x \<in> set ys. key x \<le> key m"
    using srt by (simp_all add: split sorted_append)
  have su: "{0..<n} = insert m (set ys)"
    using set_xs by (simp add: split)
  then have m: "m < n"
    by (metis atLeastLessThan_iff insertI1)
  have s: "set ys = {0..<n} - {m}"
    using notin by (simp add: su)
  have le: "key i \<le> key m" if "i < n" for i
  proof (cases "i = m")
    case True
    then show ?thesis by simp
  next
    case False
    then have "i \<in> set ys"
      using that by (simp add: s)
    then show ?thesis
      using mx by simp
  qed
  have "sorted_likelihoods likelihoods pix n = ys"
    by (simp add: sorted_likelihoods_def ys_def xs_def key_def)
  then show ?thesis
    using m s db sb le by (auto simp: key_def)
qed

text \<open>
  C1. The claim is that the pruner removes, per pixel, the hypothesis of minimal
  log-likelihood and keeps every other one. The notebook sorts ascending and drops the
  last index: for one pixel with three hypotheses (materials 0, 1, 2) of likelihoods
  1, 2, 3 the survivors are materials 0 and 1; the hypothesis of likelihood 3, the
  most likely one, is removed and the least likely one stays.
\<close>

theorem pruner_removes_most_likely:
  "update_hypothesises 1 [[1, 2, 3 :: real]] [[0, 1, 2]] [[0, 0, 1]]
       [[[1, 1, 1, 1, 1, 1], [2, 2, 2, 2, 2, 2], [3, 3, 3, 3, 3, 3 :: real]]]
       [[10, 20, 30 :: real]]
     = Inr ([[0, 1]], [[0, 0]], [[[1, 1, 1, 1, 1, 1], [2, 2, 2, 2, 2, 2]]], [[10, 20]])"
  by (simp add: update_hypothesises_def shape1_def fancy_def sorted_likelihoods_def)

text \<open>
  C5. The claim is that every pixel's survivors are ordered by descending likelihood,
  rank 0 being the most likely. For one pixel with hypotheses (materials 0, 1, 2) of
  likelihoods 3, 1, 2 the pruner leaves materials 1, 2 in this order: rank
  \<open>INDEX_BEST_HYPOTHESIS\<close> holds the hypothesis of likelihood 1, the lower of the two
  survivors, and the order is ascending.
\<close>

theorem rank_zero_is_least_likely:
  "update_hypothesises 1 [[3, 1, 2 :: real]] [[0, 1, 2]] [[0, 0, 1]]
       [[[1, 1, 1, 1, 1, 1], [2, 2, 2, 2, 2, 2], [3, 3, 3, 3, 3, 3 :: real]]]
       [[10, 20, 30 :: real]]
     = Inr ([[1, 2]], [[0, 1]], [[[2, 2, 2, 2, 2, 2], [3, 3, 3, 3, 3, 3]]], [[20, 30]])
   \<and> [1, 2 :: nat] ! INDEX_BEST_HYPOTHESIS = 1
   \<and> [3, 1, 2 :: real] ! 1 < [3, 1, 2] ! 2"
  by (simp add: update_hypothesises_def shape1_def fancy_def sorted_likelihoods_def
      INDEX_BEST_HYPOTHESIS_def)

subsection \<open>The spectrum estimator without votes\<close>

text \<open>
  C4. The claim is that a light source no pixel votes for gets its prior mean and that
  the estimator does not fail. With no vote \<open>h\<close> is the zero matrix plus zero times the
  prior precision, and \<^verbatim>\<open>np.linalg.inv(h)\<close> raises: for every 2 by 2 prior covariance
  the estimate for that light source is the error LinAlgError, never the prior mean.
\<close>

theorem update_beta_without_votes_fails:
  assumes "pixels_predicting (map (\<lambda>row. row ! INDEX_BEST_HYPOTHESIS) pixel_w') light_source = []"
    and "beta_distribution_std' ! light_source = [[a, b], [c, d]]"
  shows "update_beta img' pixel_w' pixel_sigma' pixel_g' beta_distribution_mean'
           beta_distribution_std' sigma_p' light_source = Inl LinAlgError"
  using assms
  by (simp add: update_beta_def linalg_inv_def MODEL_DIMENSIONS_def np_zeros_def madd_def
      smul_def vadd_def vsmul_def numeral_2_eq_2 Let_def split: sum.splits)

theorem update_beta_without_votes_fails_witness:
  "update_beta [[10, 20, 30]] [[0]] [[[1, 0, 0, 0, 1, 0]]] [[1]] [[1, 0], [1 / 2, 1 / 2]]
     [[[1, 0], [0, 1]], [[1, 0], [0, 1]]] sigma_p 1 = Inl LinAlgError"
proof -
  have h: "pixels_predicting (map (\<lambda>row. row ! INDEX_BEST_HYPOTHESIS) [[0]]) 1 = []"
    by (simp add: pixels_predicting_def INDEX_BEST_HYPOTHESIS_def)
  have k: "[[[1, 0], [0, 1]], [[1, 0], [0, 1]]] ! 1 = [[1, 0], [0, 1 :: real]]"
    by simp
  show ?thesis
    by (rule update_beta_without_votes_fails [OF h k])
qed

subsection \<open>A zero illumination estimate\<close>

text \<open>
  C9. \<^verbatim>\<open>update_sigma\<close> divides the observation covariance by \<open>g\<^sup>2\<close>; for \<open>g = 0\<close> it has
  no defined result. A black pixel is initialised with \<open>g = 0\<close> for every entry of the
  mean colour chart, and the loop hands the stored \<open>g\<close> to \<^verbatim>\<open>update_sigma\<close> without a
  check: the refinement of such a hypothesis has no defined result.
\<close>

theorem zero_illumination_is_undefined:
  assumes "o' < NUM_MATERIALS" and "w < NUM_LIGHT_SOURCES"
    and "pixel_g st ! pix ! hi = 0"
  shows "update_sigma sigma_p' 0 beta Sigma_o mu_o pixel = Inl NonFinite
       \<and> init_g [0, 0, 0] (mean_color_chart ! o' ! w) = Inr 0
       \<and> refine_hypothesis env mu_g_patch std_g_patch pix hi st = Inl NonFinite"
proof -
  have a: "update_sigma sigma_p' 0 beta Sigma_o mu_o pixel = Inl NonFinite"
    by (simp add: update_sigma_def)
  have "o' \<in> {0, 1, 2, 3}" and "w \<in> {0, 1}"
    using assms(1,2) by (auto simp: NUM_MATERIALS_def MATERIALS_def NUM_LIGHT_SOURCES_def
        LIGHT_SOURCES_def)
  then have b: "init_g [0, 0, 0] (mean_color_chart ! o' ! w) = Inr 0"
    by (auto simp: init_g_def mean_color_chart_def color_metric_def color_angle_distance_def
        dot_def numeral_3_eq_3)
  have c: "refine_hypothesis env mu_g_patch std_g_patch pix hi st = Inl NonFinite"
    using assms(3) by (simp add: refine_hypothesis_def update_sigma_def Let_def)
  show ?thesis
    using a b c by simp
qed

theorem zero_illumination_is_undefined_witness:
  "update_sigma sigma_p 0 (beta_matrix [1, 1]) (np_eye 6) [0, 0, 0, 0, 0, 0] [0, 0, 0]
     = Inl NonFinite
   \<and> init_g [0, 0, 0] (mean_color_chart ! 0 ! 1) = Inr 0
   \<and> refine_hypothesis black_pixel_globals [0, 0] [1, 1] 0 0
        \<lparr>pixel_o = [[0]], pixel_w = [[1]], pixel_sigma = [[[0, 0, 0, 0, 0, 0]]],
         pixel_g = [[0]], beta_hats = [[[1], [1]], [[1], [1]]]\<rparr> = Inl NonFinite"
proof -
  have h1: "0 < NUM_MATERIALS"
    by (simp add: NUM_MATERIALS_def MATERIALS_def)
  have h2: "1 < NUM_LIGHT_SOURCES"
    by (simp add: NUM_LIGHT_SOURCES_def LIGHT_SOURCES_def)
  have h3: "pixel_g \<lparr>pixel_o = [[0]], pixel_w = [[1]], pixel_sigma = [[[0, 0, 0, 0, 0, 0]]],
         pixel_g = [[0]], beta_hats = [[[1], [1]], [[1], [1]]]\<rparr> ! 0 ! 0 = 0"
    by simp
  show ?thesis
    by (rule zero_illumination_is_undefined [OF h1 h2 h3])
qed

subsection \<open>A light source with one vote\<close>

lemma np_std_single: "np_std [c] = 0"
  by (simp add: np_std_def np_mean_def)

lemma estimate_g_std_nth:
  assumes "light_source < NUM_LIGHT_SOURCES" and "pixels_predicting w light_source \<noteq> []"
  shows "snd (estimate_g_distriution g w) ! light_source =
           np_std (map (\<lambda>i. g ! i) (pixels_predicting w light_source))"
  using assms by (simp add: estimate_g_distriution_def Let_def)

lemma log_likelihood_zero_std:
  assumes "std_g env ! (pixel_w st ! pix ! hi) = 0"
  shows "\<exists>e. log_likelihood env st pix hi = Inl e"
  using assms by (simp add: log_likelihood_def log_N_singledim_def Let_def split: sum.splits)

lemma upt_Suc_shift: "[0..<Suc n] = 0 # map Suc [0..<n]"
  by (simp add: upt_conv_Cons map_Suc_upt del: upt_Suc)

lemma np_eye_Suc:
  "np_eye (Suc n) = (1 # replicate n 0) # map ((#) 0) (np_eye n)"
proof -
  have "map (\<lambda>j. if (0::nat) = j then 1 else (0::real)) (map Suc [0..<n]) = replicate n 0"
    by (simp add: map_replicate_const comp_def)
  then show ?thesis
    unfolding np_eye_def upt_Suc_shift by (simp add: comp_def)
qed

lemma sum_list_zero: "\<forall>x \<in> set xs. x = (0::real) \<Longrightarrow> sum_list xs = 0"
  by (induction xs) simp_all

lemma det_unit_first_row:
  "linalg_det ((1 # replicate n 0) # map ((#) 0) m) = linalg_det m"
proof -
  have "linalg_det ((1 # replicate n 0) # map ((#) 0) m)
      = (\<Sum>j\<leftarrow>0 # map Suc [0..<n]. (- 1) ^ j * (1 # replicate n 0) ! j
            * linalg_det (map (del_at j) (map ((#) 0) m)))"
    by (simp add: upt_Suc_shift del: upt_Suc)
  also have "\<dots> = linalg_det (map (del_at 0) (map ((#) 0) m))
      + (\<Sum>j\<leftarrow>[0..<n]. (- 1) ^ Suc j * replicate n 0 ! j
            * linalg_det (map (del_at (Suc j)) (map ((#) 0) m)))"
    by (simp add: comp_def)
  also have "(\<Sum>j\<leftarrow>[0..<n]. (- 1) ^ Suc j * replicate n 0 ! j
            * linalg_det (map (del_at (Suc j)) (map ((#) 0) m))) = 0"
    by (rule sum_list_zero) auto
  also have "map (del_at 0) (map ((#) 0) m) = m"
    by (simp add: del_at_def comp_def)
  finally show ?thesis
    by simp
qed

lemma det_np_eye: "linalg_det (np_eye n) = 1"
proof (induction n)
  case 0
  show ?case
    by (simp add: np_eye_def)
next
  case (Suc n)
  then show ?case
    by (simp only: np_eye_Suc det_unit_first_row)
qed

lemma log_N_multidim_defined:
  "linalg_det cov \<noteq> 0 \<Longrightarrow> \<not> isl (log_N_multidim val mu cov)"
  by (simp add: log_N_multidim_def linalg_inv_def)

lemma det_sigma_p: "linalg_det sigma_p = 1000"
  by (simp add: sigma_p_def np_diag_def del_at_def upt_rec)

lemma log_likelihood_defined:
  assumes "linalg_det (sigma_distribution_std env ! (pixel_o st ! pix ! hi)) \<noteq> 0"
    and "linalg_det (beta_distribution_std env ! (pixel_w st ! pix ! hi)) \<noteq> 0"
    and "std_g env ! (pixel_w st ! pix ! hi) \<noteq> 0"
  shows "\<not> isl (log_likelihood env st pix hi)"
proof -
  have "linalg_det sigma_p \<noteq> 0"
    by (simp add: det_sigma_p)
  then show ?thesis
    using assms
    by (auto simp: log_likelihood_def Let_def log_N_singledim_def log_N_multidim_def
        linalg_inv_def)
qed

lemma np_std_pair: "np_std [a, b] = 0 \<longleftrightarrow> a = b"
proof -
  have "np_std [a, b] = sqrt (((a - (a + b) / 2) ^ 2 + (b - (a + b) / 2) ^ 2) / 2)"
    by (simp add: np_std_def np_mean_def)
  also have "\<dots> = 0 \<longleftrightarrow> (a - (a + b) / 2) ^ 2 + (b - (a + b) / 2) ^ 2 = 0"
    by simp
  also have "\<dots> \<longleftrightarrow> a - (a + b) / 2 = 0 \<and> b - (a + b) / 2 = 0"
    by (rule sum_power2_eq_zero_iff)
  also have "\<dots> \<longleftrightarrow> a = b"
    by (auto simp: field_simps)
  finally show ?thesis .
qed

text \<open>
  C10 as stated: equal votes inside a window make the scores undefined. The two pixels
  of the example both vote for light source 0 with different illumination values; the
  window that holds pixel 0 alone gives the standard deviation 0 for light source 0,
  and the score of pixel 0's rank-0 hypothesis, which names light source 0, is defined:
  the scoring reads the distribution estimated from all pixels before the loop, the
  window's distribution is read by \<^verbatim>\<open>update_g\<close> only.
\<close>

theorem window_votes_do_not_reach_scoring:
  "init_pixel_hypothesises zero_Rs two_pixel_image
     = Inr (pixel_o two_pixel_start, pixel_w two_pixel_start, pixel_sigma two_pixel_start,
            pixel_g two_pixel_start)
   \<and> window_origins single_pixel_windows = Inr [(0, 0), (1, 0)]
   \<and> window_patch single_pixel_windows 2 1 (0, 0) = [0]
   \<and> pixel_w two_pixel_start ! 0 ! INDEX_BEST_HYPOTHESIS = 0
   \<and> snd (estimate_g_distriution [pixel_g two_pixel_start ! 0 ! INDEX_BEST_HYPOTHESIS]
                                  [pixel_w two_pixel_start ! 0 ! INDEX_BEST_HYPOTHESIS]) ! 0 = 0
   \<and> \<not> isl (log_likelihood two_pixel_globals two_pixel_start 0 INDEX_BEST_HYPOTHESIS)"
proof -
  have a: "init_pixel_hypothesises zero_Rs two_pixel_image
     = Inr (pixel_o two_pixel_start, pixel_w two_pixel_start, pixel_sigma two_pixel_start,
            pixel_g two_pixel_start)"
    by (simp add: two_pixel_start_def two_pixel_image_def zero_Rs_def
        init_pixel_hypothesises_def init_pixel_def
        MATERIALS_LIGHT_SOURCE_COMBINATIONS_def NUM_MATERIALS_def MATERIALS_def
        NUM_LIGHT_SOURCES_def LIGHT_SOURCES_def NUM_HYPOTHESISES_def mean_color_chart_def
        color_angle_distance_def Let_def init_g_def dot_def color_metric_def np_mean_def
        upt_rec numeral_3_eq_3 numeral_eq_Suc)
  have b: "window_origins single_pixel_windows = Inr [(0, 0), (1, 0)]"
    by (simp add: window_origins_def single_pixel_windows_def py_range_def upt_rec)
  have c: "window_patch single_pixel_windows 2 1 (0, 0) = [0]"
    by (simp add: window_patch_def single_pixel_windows_def flatten_indizes_def upto.simps)
  have d: "pixel_w two_pixel_start ! 0 ! INDEX_BEST_HYPOTHESIS = 0"
    by (simp add: two_pixel_start_def INDEX_BEST_HYPOTHESIS_def)
  have e: "snd (estimate_g_distriution [pixel_g two_pixel_start ! 0 ! INDEX_BEST_HYPOTHESIS]
             [pixel_w two_pixel_start ! 0 ! INDEX_BEST_HYPOTHESIS]) ! 0 = 0"
    by (simp add: d estimate_g_distriution_def pixels_predicting_def NUM_LIGHT_SOURCES_def
        LIGHT_SOURCES_def np_std_def np_mean_def upt_rec)
  have "std_g two_pixel_globals ! 0 = np_std [58964 / sqrt 58964, 29482 / sqrt 58964]"
    by (simp add: two_pixel_globals_def init_g_distribution_def two_pixel_start_def
        INDEX_BEST_HYPOTHESIS_def estimate_g_distriution_def pixels_predicting_def
        NUM_LIGHT_SOURCES_def LIGHT_SOURCES_def upt_rec)
  moreover have "(58964 :: real) / sqrt 58964 \<noteq> 29482 / sqrt 58964"
    by simp
  ultimately have s: "std_g two_pixel_globals ! 0 \<noteq> 0"
    by (simp add: np_std_pair)
  have f: "\<not> isl (log_likelihood two_pixel_globals two_pixel_start 0 INDEX_BEST_HYPOTHESIS)"
  proof (rule log_likelihood_defined)
    show "linalg_det (sigma_distribution_std two_pixel_globals
            ! (pixel_o two_pixel_start ! 0 ! INDEX_BEST_HYPOTHESIS)) \<noteq> 0"
      by (simp add: two_pixel_globals_def two_pixel_start_def INDEX_BEST_HYPOTHESIS_def
          det_np_eye)
    show "linalg_det (beta_distribution_std two_pixel_globals
            ! (pixel_w two_pixel_start ! 0 ! INDEX_BEST_HYPOTHESIS)) \<noteq> 0"
      by (simp add: two_pixel_globals_def two_pixel_start_def INDEX_BEST_HYPOTHESIS_def
          det_np_eye)
    show "std_g two_pixel_globals ! (pixel_w two_pixel_start ! 0 ! INDEX_BEST_HYPOTHESIS) \<noteq> 0"
      using s by (simp add: d)
  qed
  show ?thesis
    using a b c d e f by simp
qed

text \<open>
  C10 as the notebook has it. When exactly one entry votes for a light source in the
  estimate the scoring reads, or exactly two entries that carry the same illumination
  value, \<^verbatim>\<open>estimate_g_distriution\<close> returns the standard deviation 0 for it (in float64
  too: the mean of one value, and of two equal values, is exact); \<^verbatim>\<open>log_N_singledim\<close>
  divides by that value and has no defined result, and so has the score of every
  hypothesis that names the light source.
\<close>

theorem one_or_two_equal_votes_make_likelihood_undefined:
  assumes "light_source < NUM_LIGHT_SOURCES"
    and "pixels_predicting w light_source = [i]
         \<or> (pixels_predicting w light_source = [i, j] \<and> g ! i = g ! j)"
    and "std_g env = snd (estimate_g_distriution g w)"
    and "pixel_w st ! pix ! hi = light_source"
  shows "snd (estimate_g_distriution g w) ! light_source = 0
     \<and> log_N_singledim v m (snd (estimate_g_distriution g w) ! light_source) = Inl NonFinite
     \<and> (\<exists>e. log_likelihood env st pix hi = Inl e)"
proof -
  have votes: "pixels_predicting w light_source \<noteq> []"
    using assms(2) by auto
  have "np_std (map (\<lambda>i. g ! i) (pixels_predicting w light_source)) = 0"
    using assms(2) by (auto simp: np_std_single np_std_pair)
  then have z: "snd (estimate_g_distriution g w) ! light_source = 0"
    using assms(1) votes by (simp add: estimate_g_std_nth)
  then have s: "log_N_singledim v m (snd (estimate_g_distriution g w) ! light_source)
                  = Inl NonFinite"
    by (simp add: log_N_singledim_def)
  have "std_g env ! (pixel_w st ! pix ! hi) = 0"
    using z assms(3,4) by simp
  then have "\<exists>e. log_likelihood env st pix hi = Inl e"
    by (rule log_likelihood_zero_std)
  with z s show ?thesis by simp
qed

theorem one_or_two_equal_votes_make_likelihood_undefined_witness:
  "snd (estimate_g_distriution [5] [0]) ! 0 = 0
   \<and> log_N_singledim 5 5 (snd (estimate_g_distriution [5] [0]) ! 0) = Inl NonFinite
   \<and> (\<exists>e. log_likelihood (black_pixel_globals\<lparr>std_g := snd (estimate_g_distriution [5] [0])\<rparr>)
            \<lparr>pixel_o = [[0]], pixel_w = [[0]], pixel_sigma = [[[0, 0, 0, 0, 0, 0]]],
             pixel_g = [[5]], beta_hats = [[[1], [1]], [[1], [1]]]\<rparr> 0 0 = Inl e)
   \<and> snd (estimate_g_distriution [7, 3, 7] [1, 0, 1]) ! 1 = 0
   \<and> log_N_singledim 7 7 (snd (estimate_g_distriution [7, 3, 7] [1, 0, 1]) ! 1) = Inl NonFinite
   \<and> (\<exists>e. log_likelihood
            (black_pixel_globals\<lparr>std_g := snd (estimate_g_distriution [7, 3, 7] [1, 0, 1])\<rparr>)
            \<lparr>pixel_o = [[0]], pixel_w = [[1]], pixel_sigma = [[[0, 0, 0, 0, 0, 0]]],
             pixel_g = [[7]], beta_hats = [[[1], [1]], [[1], [1]]]\<rparr> 0 0 = Inl e)"
proof -
  have h1: "0 < NUM_LIGHT_SOURCES" and k1: "1 < NUM_LIGHT_SOURCES"
    by (simp_all add: NUM_LIGHT_SOURCES_def LIGHT_SOURCES_def)
  have h2: "pixels_predicting [0] 0 = [0]
            \<or> (pixels_predicting [0] 0 = [0, 0] \<and> [5 :: real] ! 0 = [5] ! 0)"
    by (simp add: pixels_predicting_def)
  have k2: "pixels_predicting [1, 0, 1] 1 = [0]
            \<or> (pixels_predicting [1, 0, 1] 1 = [0, 2] \<and> [7, 3, 7 :: real] ! 0 = [7, 3, 7] ! 2)"
    by (simp add: pixels_predicting_def upt_rec)
  have h3: "std_g (black_pixel_globals\<lparr>std_g := snd (estimate_g_distriution [5] [0])\<rparr>)
              = snd (estimate_g_distriution [5] [0])"
    by simp
  have k3: "std_g (black_pixel_globals\<lparr>std_g := snd (estimate_g_distriution [7, 3, 7] [1, 0, 1])\<rparr>)
              = snd (estimate_g_distriution [7, 3, 7] [1, 0, 1])"
    by simp
  have h4: "pixel_w \<lparr>pixel_o = [[0]], pixel_w = [[0]], pixel_sigma = [[[0, 0, 0, 0, 0, 0 :: real]]],
             pixel_g = [[5]], beta_hats = [[[1], [1]], [[1], [1]]]\<rparr> ! 0 ! 0 = 0"
    by simp
  have k4: "pixel_w \<lparr>pixel_o = [[0]], pixel_w = [[1]], pixel_sigma = [[[0, 0, 0, 0, 0, 0 :: real]]],
             pixel_g = [[7]], beta_hats = [[[1], [1]], [[1], [1]]]\<rparr> ! 0 ! 0 = 1"
    by simp
  from one_or_two_equal_votes_make_likelihood_undefined [OF h1 h2 h3 h4, of 5 5]
    one_or_two_equal_votes_make_likelihood_undefined [OF k1 k2 k3 k4, of 7 7]
  show ?thesis
    by blast
qed

subsection \<open>The window scheduler\<close>

lemma flatten_indizes_iff:
  "idx \<in> set (flatten_indizes x_start x_end y_start y_end width) \<longleftrightarrow>
     (\<exists>px py. x_start \<le> px \<and> px < x_end \<and> y_start \<le> py \<and> py < y_end
        \<and> idx = py * width + px)"
proof
  assume "idx \<in> set (flatten_indizes x_start x_end y_start y_end width)"
  then obtain px py where "px \<in> {x_start..x_end - 1}" "py \<in> {y_start..y_end - 1}"
      "idx = py * width + px"
    by (auto simp: flatten_indizes_def)
  then show "\<exists>px py. x_start \<le> px \<and> px < x_end \<and> y_start \<le> py \<and> py < y_end
      \<and> idx = py * width + px"
    by (intro exI[of _ px] exI[of _ py]) auto
next
  assume "\<exists>px py. x_start \<le> px \<and> px < x_end \<and> y_start \<le> py \<and> py < y_end
      \<and> idx = py * width + px"
  then obtain px py where "x_start \<le> px" "px < x_end" "y_start \<le> py" "py < y_end"
      "idx = py * width + px"
    by blast
  then have "px \<in> set [x_start..x_end - 1]" "py \<in> set [y_start..y_end - 1]"
    by auto
  then show "idx \<in> set (flatten_indizes x_start x_end y_start y_end width)"
    unfolding flatten_indizes_def using \<open>idx = py * width + px\<close>
    by (auto simp del: set_upto)
qed

lemma py_range_positive_step:
  assumes "0 < step"
  shows "py_range start stop step
           = Inr (map (\<lambda>k. start + int k * step)
                      [0..<nat ((stop - start + step - 1) div step)])"
    and "\<forall>x \<in> set (map (\<lambda>k. start + int k * step)
                       [0..<nat ((stop - start + step - 1) div step)]). start \<le> x \<and> x < stop"
proof -
  show "py_range start stop step
           = Inr (map (\<lambda>k. start + int k * step)
                      [0..<nat ((stop - start + step - 1) div step)])"
    using assms by (simp add: py_range_def)
  have "start + int k * step < stop" if "k < nat ((stop - start + step - 1) div step)" for k
  proof -
    have "int k < (stop - start + step - 1) div step"
      using that by linarith
    then have "int k + 1 \<le> (stop - start + step - 1) div step"
      by simp
    then have "(int k + 1) * step \<le> ((stop - start + step - 1) div step) * step"
      using assms by (simp add: mult_right_mono)
    also have "\<dots> = (stop - start + step - 1) - (stop - start + step - 1) mod step"
      by (simp add: minus_mod_eq_div_mult)
    also have "\<dots> \<le> stop - start + step - 1"
      using pos_mod_sign [OF assms, of "stop - start + step - 1"] by linarith
    finally show ?thesis
      by (simp add: algebra_simps)
  qed
  moreover have "start \<le> start + int k * step" for k
    using assms by simp
  ultimately show "\<forall>x \<in> set (map (\<lambda>k. start + int k * step)
      [0..<nat ((stop - start + step - 1) div step)]). start \<le> x \<and> x < stop"
    by auto
qed

text \<open>
  C8 as stated: every index a window collects lies inside the region of interest. In a
  region of 4 by 4 pixels of an 8 by 8 image the window that starts at the region's
  right end, \<open>(4, 0)\<close>, collects index 6, which is column 6 of row 0.
\<close>

theorem window_leaves_region:
  "window_origins small_config
     = Inr [(0, 0), (0, 2), (0, 4), (2, 0), (2, 2), (2, 4), (4, 0), (4, 2), (4, 4)]
   \<and> 6 \<in> set (window_patch small_config 8 8 (4, 0))
   \<and> \<not> inside_region small_config 8 6"
proof -
  have a: "window_origins small_config
     = Inr [(0, 0), (0, 2), (0, 4), (2, 0), (2, 2), (2, 4), (4, 0), (4, 2), (4, 4)]"
    by (simp add: window_origins_def small_config_def py_range_def upt_rec)
  have "\<exists>px py. (4::int) \<le> px \<and> px < 8 \<and> (0::int) \<le> py \<and> py < 4 \<and> (6::int) = py * 8 + px"
    by (intro exI[of _ 6] exI[of _ 0]) simp
  then have b: "6 \<in> set (window_patch small_config 8 8 (4, 0))"
    by (simp add: window_patch_def small_config_def flatten_indizes_iff)
  have c: "\<not> inside_region small_config 8 6"
    by (simp add: inside_region_def small_config_def)
  show ?thesis
    using a b c by simp
qed

text \<open>
  C8 as the notebook has it. With a positive step \<^verbatim>\<open>WINDOW_X_SIZE - OVERLAPPING\<close> the
  window origins are the grid points from the region's start to its end inclusive, in
  that step in both directions, columns in the outer loop from left to right and rows
  in the inner loop from top to bottom. Every index of a window is \<open>py * width + px\<close>
  for a point of the window clipped to the image; for a region that starts at
  non-negative coordinates it is an index into the image.
\<close>

theorem windows_clipped_to_image:
  assumes "0 < WINDOW_X_SIZE cfg - OVERLAPPING cfg"
  shows "\<exists>origins.
      window_origins cfg = Inr origins
    \<and> origins = List.product
        (map (\<lambda>k. fst (MACRO_REGION_X cfg) + int k * (WINDOW_X_SIZE cfg - OVERLAPPING cfg))
          [0..<nat ((snd (MACRO_REGION_X cfg) + 1 - fst (MACRO_REGION_X cfg)
                     + (WINDOW_X_SIZE cfg - OVERLAPPING cfg) - 1)
                    div (WINDOW_X_SIZE cfg - OVERLAPPING cfg))])
        (map (\<lambda>k. fst (MACRO_REGION_Y cfg) + int k * (WINDOW_X_SIZE cfg - OVERLAPPING cfg))
          [0..<nat ((snd (MACRO_REGION_Y cfg) + 1 - fst (MACRO_REGION_Y cfg)
                     + (WINDOW_X_SIZE cfg - OVERLAPPING cfg) - 1)
                    div (WINDOW_X_SIZE cfg - OVERLAPPING cfg))])
    \<and> (\<forall>origin \<in> set origins.
          fst (MACRO_REGION_X cfg) \<le> fst origin \<and> fst origin \<le> snd (MACRO_REGION_X cfg)
        \<and> fst (MACRO_REGION_Y cfg) \<le> snd origin \<and> snd origin \<le> snd (MACRO_REGION_Y cfg)
        \<and> (\<forall>idx \<in> set (window_patch cfg width height origin).
             (\<exists>px py. idx = py * width + px
                \<and> fst origin \<le> px \<and> px < fst origin + WINDOW_X_SIZE cfg \<and> px < width
                \<and> snd origin \<le> py \<and> py < snd origin + WINDOW_Y_SIZE cfg \<and> py < height)
           \<and> (0 \<le> fst (MACRO_REGION_X cfg) \<and> 0 \<le> fst (MACRO_REGION_Y cfg)
                \<longrightarrow> 0 \<le> idx \<and> idx < width * height)))"
proof -
  define step where "step = WINDOW_X_SIZE cfg - OVERLAPPING cfg"
  define xs where "xs = map (\<lambda>k. fst (MACRO_REGION_X cfg) + int k * step)
          [0..<nat ((snd (MACRO_REGION_X cfg) + 1 - fst (MACRO_REGION_X cfg) + step - 1)
                    div step)]"
  define ys where "ys = map (\<lambda>k. fst (MACRO_REGION_Y cfg) + int k * step)
          [0..<nat ((snd (MACRO_REGION_Y cfg) + 1 - fst (MACRO_REGION_Y cfg) + step - 1)
                    div step)]"
  have pos: "0 < step"
    using assms by (simp add: step_def)
  have rx: "py_range (fst (MACRO_REGION_X cfg)) (snd (MACRO_REGION_X cfg) + 1) step = Inr xs"
    unfolding xs_def by (rule py_range_positive_step(1) [OF pos])
  have ry: "py_range (fst (MACRO_REGION_Y cfg)) (snd (MACRO_REGION_Y cfg) + 1) step = Inr ys"
    unfolding ys_def by (rule py_range_positive_step(1) [OF pos])
  have bx: "\<forall>x \<in> set xs. fst (MACRO_REGION_X cfg) \<le> x \<and> x < snd (MACRO_REGION_X cfg) + 1"
    unfolding xs_def by (rule py_range_positive_step(2) [OF pos])
  have by': "\<forall>y \<in> set ys. fst (MACRO_REGION_Y cfg) \<le> y \<and> y < snd (MACRO_REGION_Y cfg) + 1"
    unfolding ys_def by (rule py_range_positive_step(2) [OF pos])
  have origins: "window_origins cfg = Inr (List.product xs ys)"
    using rx ry by (simp add: window_origins_def step_def)
  have inside: "fst (MACRO_REGION_X cfg) \<le> fst origin \<and> fst origin \<le> snd (MACRO_REGION_X cfg)
        \<and> fst (MACRO_REGION_Y cfg) \<le> snd origin \<and> snd origin \<le> snd (MACRO_REGION_Y cfg)"
    if "origin \<in> set (List.product xs ys)" for origin
  proof -
    have "fst origin \<in> set xs" and "snd origin \<in> set ys"
      using that by auto
    then show ?thesis
      using bx by' by fastforce
  qed
  have patch: "(\<exists>px py. idx = py * width + px
                \<and> fst origin \<le> px \<and> px < fst origin + WINDOW_X_SIZE cfg \<and> px < width
                \<and> snd origin \<le> py \<and> py < snd origin + WINDOW_Y_SIZE cfg \<and> py < height)
           \<and> (0 \<le> fst (MACRO_REGION_X cfg) \<and> 0 \<le> fst (MACRO_REGION_Y cfg)
                \<longrightarrow> 0 \<le> idx \<and> idx < width * height)"
    if o: "origin \<in> set (List.product xs ys)"
      and i: "idx \<in> set (window_patch cfg width height origin)" for origin idx
  proof -
    from i obtain px py where p: "fst origin \<le> px"
        "px < min (fst origin + WINDOW_X_SIZE cfg) width"
        "snd origin \<le> py" "py < min (snd origin + WINDOW_Y_SIZE cfg) height"
        "idx = py * width + px"
      unfolding window_patch_def flatten_indizes_iff by blast
    have first: "\<exists>px py. idx = py * width + px
                \<and> fst origin \<le> px \<and> px < fst origin + WINDOW_X_SIZE cfg \<and> px < width
                \<and> snd origin \<le> py \<and> py < snd origin + WINDOW_Y_SIZE cfg \<and> py < height"
      using p by (intro exI[of _ px] exI[of _ py]) simp
    have second: "0 \<le> idx \<and> idx < width * height"
      if nonneg: "0 \<le> fst (MACRO_REGION_X cfg) \<and> 0 \<le> fst (MACRO_REGION_Y cfg)"
    proof -
      have px: "0 \<le> px" "px < width" and py: "0 \<le> py" "py < height"
        using p inside [OF o] nonneg by simp_all
      have "0 \<le> py * width"
        using px py by simp
      then have lo: "0 \<le> idx"
        using px p(5) by simp
      have "py + 1 \<le> height"
        using py by simp
      then have "(py + 1) * width \<le> height * width"
        using px by (intro mult_right_mono) simp_all
      then have "py * width + px < width * height"
        using px by (simp add: algebra_simps)
      then show ?thesis
        using lo p(5) by simp
    qed
    show ?thesis
      using first second by blast
  qed
  show ?thesis
    using origins inside patch unfolding xs_def ys_def step_def by blast
qed

theorem windows_clipped_to_image_witness:
  "\<exists>origins.
      window_origins small_config = Inr origins
    \<and> origins = List.product
        (map (\<lambda>k. fst (MACRO_REGION_X small_config)
                 + int k * (WINDOW_X_SIZE small_config - OVERLAPPING small_config))
          [0..<nat ((snd (MACRO_REGION_X small_config) + 1 - fst (MACRO_REGION_X small_config)
                     + (WINDOW_X_SIZE small_config - OVERLAPPING small_config) - 1)
                    div (WINDOW_X_SIZE small_config - OVERLAPPING small_config))])
        (map (\<lambda>k. fst (MACRO_REGION_Y small_config)
                 + int k * (WINDOW_X_SIZE small_config - OVERLAPPING small_config))
          [0..<nat ((snd (MACRO_REGION_Y small_config) + 1 - fst (MACRO_REGION_Y small_config)
                     + (WINDOW_X_SIZE small_config - OVERLAPPING small_config) - 1)
                    div (WINDOW_X_SIZE small_config - OVERLAPPING small_config))])
    \<and> (\<forall>origin \<in> set origins.
          fst (MACRO_REGION_X small_config) \<le> fst origin
        \<and> fst origin \<le> snd (MACRO_REGION_X small_config)
        \<and> fst (MACRO_REGION_Y small_config) \<le> snd origin
        \<and> snd origin \<le> snd (MACRO_REGION_Y small_config)
        \<and> (\<forall>idx \<in> set (window_patch small_config 8 8 origin).
             (\<exists>px py. idx = py * 8 + px
                \<and> fst origin \<le> px \<and> px < fst origin + WINDOW_X_SIZE small_config \<and> px < 8
                \<and> snd origin \<le> py \<and> py < snd origin + WINDOW_Y_SIZE small_config \<and> py < 8)
           \<and> (0 \<le> fst (MACRO_REGION_X small_config) \<and> 0 \<le> fst (MACRO_REGION_Y small_config)
                \<longrightarrow> 0 \<le> idx \<and> idx < 8 * 8)))"
proof -
  have h: "0 < WINDOW_X_SIZE small_config - OVERLAPPING small_config"
    by (simp add: small_config_def)
  show ?thesis
    by (rule windows_clipped_to_image [OF h])
qed

subsection \<open>Matrix algebra on lists of rows\<close>

lemma wf_mat_length: "wf_mat r c a \<Longrightarrow> length a = r"
  by (simp add: wf_mat_def)

lemma wf_mat_row: "wf_mat r c a \<Longrightarrow> i < r \<Longrightarrow> length (a ! i) = c"
  by (simp add: wf_mat_def list_all_length)

lemma wf_matI: "length a = r \<Longrightarrow> (\<And>i. i < r \<Longrightarrow> length (a ! i) = c) \<Longrightarrow> wf_mat r c a"
  by (simp add: wf_mat_def list_all_length)

lemma mat_eqI:
  assumes "wf_mat r c a" and "wf_mat r c b"
    and "\<And>i j. i < r \<Longrightarrow> j < c \<Longrightarrow> a ! i ! j = b ! i ! j"
  shows "a = b"
proof (rule nth_equalityI)
  show "length a = length b"
    using assms(1,2) by (simp add: wf_mat_length)
  fix i assume "i < length a"
  then have i: "i < r"
    using assms(1) by (simp add: wf_mat_length)
  show "a ! i = b ! i"
  proof (rule nth_equalityI)
    show "length (a ! i) = length (b ! i)"
      using assms(1,2) i by (simp add: wf_mat_row)
    fix j assume "j < length (a ! i)"
    then have "j < c"
      using assms(1) i by (simp add: wf_mat_row)
    then show "a ! i ! j = b ! i ! j"
      using i by (rule assms(3)[rotated])
  qed
qed

lemma dot_sum:
  assumes "length u = n" and "length v = n"
  shows "dot u v = (\<Sum>k<n. u ! k * v ! k)"
proof -
  have "dot u v = (\<Sum>k = 0..<length (map2 (*) u v). map2 (*) u v ! k)"
    unfolding dot_def by (rule sum_list_sum_nth)
  also have "\<dots> = (\<Sum>k = 0..<n. u ! k * v ! k)"
    using assms by (intro sum.cong) simp_all
  finally show ?thesis
    by (simp add: atLeast0LessThan)
qed

lemma mat_T_eq:
  assumes "wf_mat r c a" and "0 < r"
  shows "mat_T a = map (\<lambda>j. map (\<lambda>row. row ! j) a) [0..<c]"
proof -
  obtain x xs where a: "a = x # xs"
    using assms by (cases a) (auto simp: wf_mat_def)
  then have "length x = c"
    using assms(1) by (simp add: wf_mat_def)
  then show ?thesis
    by (simp add: mat_T_def a)
qed

lemma wf_mat_T:
  assumes "wf_mat r c a" and "0 < r"
  shows "wf_mat c r (mat_T a)"
  using assms by (simp add: mat_T_eq [OF assms] wf_mat_def list_all_length)

lemma mat_T_nth:
  assumes "wf_mat r c a" and "0 < r" and "j < c" and "i < r"
  shows "mat_T a ! j ! i = a ! i ! j"
  using assms by (simp add: mat_T_eq [OF assms(1,2)] wf_mat_length)

lemma wf_matmul:
  assumes "wf_mat r m a" and "wf_mat m c b" and "0 < m"
  shows "wf_mat r c (matmul a b)"
  using assms wf_mat_T [OF assms(2,3)]
  by (simp add: matmul_def wf_mat_def list_all_length)

lemma matmul_nth:
  assumes "wf_mat r m a" and "wf_mat m c b" and "0 < m" and "i < r" and "j < c"
  shows "matmul a b ! i ! j = (\<Sum>k<m. a ! i ! k * b ! k ! j)"
proof -
  have t: "wf_mat c m (mat_T b)"
    by (rule wf_mat_T [OF assms(2,3)])
  have "matmul a b ! i ! j = dot (a ! i) (mat_T b ! j)"
    using assms t by (simp add: matmul_def wf_mat_length)
  also have "\<dots> = (\<Sum>k<m. a ! i ! k * mat_T b ! j ! k)"
    using assms t by (intro dot_sum) (simp_all add: wf_mat_row)
  also have "\<dots> = (\<Sum>k<m. a ! i ! k * b ! k ! j)"
    using assms by (intro sum.cong) (simp_all add: mat_T_nth)
  finally show ?thesis .
qed

lemma length_matvec: "length (matvec a v) = length a"
  by (simp add: matvec_def)

lemma matvec_nth:
  assumes "wf_mat r m a" and "length v = m" and "i < r"
  shows "matvec a v ! i = (\<Sum>k<m. a ! i ! k * v ! k)"
  using assms by (simp add: matvec_def wf_mat_length dot_sum wf_mat_row)

lemma vec_eqI:
  assumes "length u = n" and "length v = n" and "\<And>i. i < n \<Longrightarrow> u ! i = v ! i"
  shows "u = v"
  using assms by (intro nth_equalityI) simp_all

lemma matmul_assoc:
  assumes "wf_mat r m a" and "wf_mat m n b" and "wf_mat n c d" and "0 < m" and "0 < n"
  shows "matmul (matmul a b) d = matmul a (matmul b d)"
proof (rule mat_eqI)
  have ab: "wf_mat r n (matmul a b)"
    by (rule wf_matmul [OF assms(1,2,4)])
  have bd: "wf_mat m c (matmul b d)"
    by (rule wf_matmul [OF assms(2,3,5)])
  show "wf_mat r c (matmul (matmul a b) d)"
    by (rule wf_matmul [OF ab assms(3,5)])
  show "wf_mat r c (matmul a (matmul b d))"
    by (rule wf_matmul [OF assms(1) bd assms(4)])
  fix i j assume i: "i < r" and j: "j < c"
  have "matmul (matmul a b) d ! i ! j = (\<Sum>l<n. matmul a b ! i ! l * d ! l ! j)"
    by (rule matmul_nth [OF ab assms(3,5) i j])
  also have "\<dots> = (\<Sum>l<n. (\<Sum>k<m. a ! i ! k * b ! k ! l) * d ! l ! j)"
    using assms i by (intro sum.cong refl) (simp add: matmul_nth [where r = r and c = n])
  also have "\<dots> = (\<Sum>l<n. \<Sum>k<m. a ! i ! k * (b ! k ! l * d ! l ! j))"
    by (simp add: sum_distrib_right mult.assoc)
  also have "\<dots> = (\<Sum>k<m. \<Sum>l<n. a ! i ! k * (b ! k ! l * d ! l ! j))"
    by (rule sum.swap)
  also have "\<dots> = (\<Sum>k<m. a ! i ! k * (\<Sum>l<n. b ! k ! l * d ! l ! j))"
    by (simp add: sum_distrib_left)
  also have "\<dots> = (\<Sum>k<m. a ! i ! k * matmul b d ! k ! j)"
    using assms j by (intro sum.cong refl) (simp add: matmul_nth [where r = m and c = c])
  also have "\<dots> = matmul a (matmul b d) ! i ! j"
    by (rule matmul_nth [OF assms(1) bd assms(4) i j, symmetric])
  finally show "matmul (matmul a b) d ! i ! j = matmul a (matmul b d) ! i ! j" .
qed

lemma matvec_matmul:
  assumes "wf_mat r m a" and "wf_mat m c b" and "length v = c" and "0 < m"
  shows "matvec (matmul a b) v = matvec a (matvec b v)"
proof (rule vec_eqI [where n = r])
  show "length (matvec (matmul a b) v) = r"
    using assms by (simp add: length_matvec matmul_def wf_mat_length)
  show "length (matvec a (matvec b v)) = r"
    using assms by (simp add: length_matvec wf_mat_length)
  fix i assume i: "i < r"
  have "matvec (matmul a b) v ! i = (\<Sum>l<c. matmul a b ! i ! l * v ! l)"
    by (rule matvec_nth [OF wf_matmul [OF assms(1,2,4)] assms(3) i])
  also have "\<dots> = (\<Sum>l<c. (\<Sum>k<m. a ! i ! k * b ! k ! l) * v ! l)"
    using assms i by (intro sum.cong refl) (simp add: matmul_nth [where r = r and c = c])
  also have "\<dots> = (\<Sum>l<c. \<Sum>k<m. a ! i ! k * (b ! k ! l * v ! l))"
    by (simp add: sum_distrib_right mult.assoc)
  also have "\<dots> = (\<Sum>k<m. \<Sum>l<c. a ! i ! k * (b ! k ! l * v ! l))"
    by (rule sum.swap)
  also have "\<dots> = (\<Sum>k<m. a ! i ! k * (\<Sum>l<c. b ! k ! l * v ! l))"
    by (simp add: sum_distrib_left)
  also have "\<dots> = (\<Sum>k<m. a ! i ! k * matvec b v ! k)"
    using assms by (intro sum.cong refl) (simp add: matvec_nth [where r = m])
  also have "\<dots> = matvec a (matvec b v) ! i"
    using assms i by (intro matvec_nth [symmetric, where r = r]) (simp_all add: length_matvec wf_mat_length)
  finally show "matvec (matmul a b) v ! i = matvec a (matvec b v) ! i" .
qed


lemma wf_smul: "wf_mat r c a \<Longrightarrow> wf_mat r c (smul g a)"
  by (simp add: wf_mat_def smul_def vsmul_def list_all_length)

lemma smul_nth: "wf_mat r c a \<Longrightarrow> i < r \<Longrightarrow> j < c \<Longrightarrow> smul g a ! i ! j = g * a ! i ! j"
  by (simp add: smul_def vsmul_def wf_mat_length wf_mat_row)

lemma smul_matmul:
  assumes "wf_mat r m a" and "wf_mat m c b" and "0 < m"
  shows "matmul (smul g a) b = smul g (matmul a b)"
proof (rule mat_eqI)
  have ga: "wf_mat r m (smul g a)"
    by (rule wf_smul [OF assms(1)])
  have ab: "wf_mat r c (matmul a b)"
    by (rule wf_matmul [OF assms])
  show "wf_mat r c (matmul (smul g a) b)"
    by (rule wf_matmul [OF ga assms(2,3)])
  show "wf_mat r c (smul g (matmul a b))"
    by (rule wf_smul [OF ab])
  fix i j assume i: "i < r" and j: "j < c"
  have "matmul (smul g a) b ! i ! j = (\<Sum>k<m. smul g a ! i ! k * b ! k ! j)"
    by (rule matmul_nth [OF ga assms(2,3) i j])
  also have "\<dots> = (\<Sum>k<m. g * (a ! i ! k * b ! k ! j))"
    using assms(1) i by (intro sum.cong refl) (simp add: smul_nth [where r = r and c = m])
  also have "\<dots> = g * (\<Sum>k<m. a ! i ! k * b ! k ! j)"
    by (simp add: sum_distrib_left)
  also have "\<dots> = smul g (matmul a b) ! i ! j"
    using matmul_nth [OF assms i j] smul_nth [OF ab i j] by simp
  finally show "matmul (smul g a) b ! i ! j = smul g (matmul a b) ! i ! j" .
qed

lemma linalg_inv_wf:
  "linalg_inv a = Inr k \<Longrightarrow> wf_mat (length a) (length a) k"
  by (auto simp: linalg_inv_def wf_mat_def list_all_length split: if_splits)

lemma wf_madd: "wf_mat r c a \<Longrightarrow> wf_mat r c b \<Longrightarrow> wf_mat r c (madd a b)"
  by (simp add: wf_mat_def madd_def vadd_def list_all_length)

lemma wf_msub: "wf_mat r c a \<Longrightarrow> wf_mat r c b \<Longrightarrow> wf_mat r c (msub a b)"
  by (simp add: wf_mat_def msub_def vsub_def list_all_length)

lemma wf_mdiv: "wf_mat r c a \<Longrightarrow> wf_mat r c (mdiv a x)"
  by (simp add: wf_mat_def mdiv_def list_all_length)

lemma wf_np_eye: "wf_mat n n (np_eye n)"
  by (simp add: wf_mat_def np_eye_def list_all_length)

lemma update_sigma_regrouped:
  assumes "g \<noteq> 0"
    and "wf_mat NUM_COLORS NUM_COLORS sigma_p'"
    and "wf_mat (NUM_COLORS * MODEL_DIMENSIONS) NUM_COLORS beta"
    and "wf_mat (NUM_COLORS * MODEL_DIMENSIONS) (NUM_COLORS * MODEL_DIMENSIONS) Sigma_o"
    and "length mu_o = NUM_COLORS * MODEL_DIMENSIONS"
    and "length pixel = NUM_COLORS"
  shows "update_sigma sigma_p' g beta Sigma_o mu_o pixel
           = reflectance_estimate sigma_p' g beta Sigma_o mu_o pixel"
proof -
  define n where "n = NUM_COLORS"
  define d where "d = NUM_COLORS * MODEL_DIMENSIONS"
  have n: "0 < n" and d: "0 < d"
    by (simp_all add: n_def d_def NUM_COLORS_def MODEL_DIMENSIONS_def)
  have sp: "wf_mat n n sigma_p'" and b: "wf_mat d n beta" and so: "wf_mat d d Sigma_o"
    using assms by (simp_all add: n_def d_def)
  have bt: "wf_mat n d (mat_T beta)"
    by (rule wf_mat_T [OF b d])
  have sob: "wf_mat d n (matmul Sigma_o beta)"
    by (rule wf_matmul [OF so b d])
  have m: "matmul (matmul (mat_T beta) Sigma_o) beta = matmul (mat_T beta) (matmul Sigma_o beta)"
    by (rule matmul_assoc [OF bt so b d d])
  have btsob: "wf_mat n n (matmul (mat_T beta) (matmul Sigma_o beta))"
    by (rule wf_matmul [OF bt sob d])
  have len: "length (madd (mdiv sigma_p' (g ^ 2)) (matmul (mat_T beta) (matmul Sigma_o beta))) = n"
    by (rule wf_mat_length [OF wf_madd [OF wf_mdiv [OF sp] btsob]])
  have k: "Inr (vadd (matvec (msub (np_eye d)
              (matmul (matmul (matmul Sigma_o beta) K3) (mat_T beta))) mu_o)
            (matvec (matmul (matmul (matmul (smul g Sigma_o) beta)
                (msub (np_eye n) (matmul (matmul (matmul K3 (mat_T beta)) Sigma_o) beta)))
                sigma_p_inv) pixel))
        = (Inr (vadd (matvec (msub (np_eye d)
              (matmul (matmul Sigma_o beta) (matmul K3 (mat_T beta)))) mu_o)
            (matvec (smul g (matmul (matmul Sigma_o beta)
                (msub (np_eye n) (matmul K3 (matmul (mat_T beta) (matmul Sigma_o beta))))))
              (matvec sigma_p_inv pixel))) :: error + vec)"
    if k3: "linalg_inv (madd (mdiv sigma_p' (g ^ 2))
               (matmul (mat_T beta) (matmul Sigma_o beta))) = Inr K3"
      and si: "linalg_inv sigma_p' = Inr sigma_p_inv" for K3 sigma_p_inv
  proof -
    have wk3: "wf_mat n n K3"
      using linalg_inv_wf [OF k3] len by simp
    have wsi: "wf_mat n n sigma_p_inv"
      using linalg_inv_wf [OF si] sp by (simp add: wf_mat_length)
    have k3bt: "wf_mat n d (matmul K3 (mat_T beta))"
      by (rule wf_matmul [OF wk3 bt n])
    have e1: "matmul (matmul (matmul Sigma_o beta) K3) (mat_T beta)
                = matmul (matmul Sigma_o beta) (matmul K3 (mat_T beta))"
      by (rule matmul_assoc [OF sob wk3 bt n n])
    have "matmul (matmul (matmul K3 (mat_T beta)) Sigma_o) beta
                = matmul (matmul K3 (mat_T beta)) (matmul Sigma_o beta)"
      by (rule matmul_assoc [OF k3bt so b d d])
    also have "\<dots> = matmul K3 (matmul (mat_T beta) (matmul Sigma_o beta))"
      by (rule matmul_assoc [OF wk3 bt sob n d])
    finally have e2: "matmul (matmul (matmul K3 (mat_T beta)) Sigma_o) beta
                = matmul K3 (matmul (mat_T beta) (matmul Sigma_o beta))" .
    have inner: "wf_mat n n (msub (np_eye n)
                   (matmul K3 (matmul (mat_T beta) (matmul Sigma_o beta))))"
      by (intro wf_msub wf_np_eye wf_matmul [OF wk3 btsob n])
    have "matmul (matmul (smul g Sigma_o) beta)
            (msub (np_eye n) (matmul K3 (matmul (mat_T beta) (matmul Sigma_o beta))))
          = matmul (smul g (matmul Sigma_o beta))
            (msub (np_eye n) (matmul K3 (matmul (mat_T beta) (matmul Sigma_o beta))))"
      by (simp add: smul_matmul [OF so b d])
    also have "\<dots> = smul g (matmul (matmul Sigma_o beta)
            (msub (np_eye n) (matmul K3 (matmul (mat_T beta) (matmul Sigma_o beta)))))"
      by (rule smul_matmul [OF sob inner n])
    finally have e3: "matmul (matmul (smul g Sigma_o) beta)
            (msub (np_eye n) (matmul K3 (matmul (mat_T beta) (matmul Sigma_o beta))))
          = smul g (matmul (matmul Sigma_o beta)
            (msub (np_eye n) (matmul K3 (matmul (mat_T beta) (matmul Sigma_o beta)))))" .
    have k2: "wf_mat d n (smul g (matmul (matmul Sigma_o beta)
            (msub (np_eye n) (matmul K3 (matmul (mat_T beta) (matmul Sigma_o beta))))))"
      by (intro wf_smul wf_matmul [OF sob inner n])
    have e4: "matvec (matmul (smul g (matmul (matmul Sigma_o beta)
            (msub (np_eye n) (matmul K3 (matmul (mat_T beta) (matmul Sigma_o beta))))))
              sigma_p_inv) pixel
          = matvec (smul g (matmul (matmul Sigma_o beta)
            (msub (np_eye n) (matmul K3 (matmul (mat_T beta) (matmul Sigma_o beta))))))
              (matvec sigma_p_inv pixel)"
      using assms(6) by (intro matvec_matmul [OF k2 wsi _ n]) (simp add: n_def)
    show ?thesis
      by (simp only: e1 e2 e3 e4)
  qed
  show ?thesis
    using assms(1) k
    by (simp add: update_sigma_def reflectance_estimate_def m Let_def n_def d_def
        split: sum.splits)
qed































subsection \<open>The reflectance estimator\<close>

text \<open>
  C6. For a nonzero illumination \<open>g\<close> and arguments of the shapes the notebook passes
  (observation covariance 3 by 3, expanded spectrum operator 6 by 3, prior covariance
  6 by 6), \<^verbatim>\<open>update_sigma\<close>, which multiplies from the left, returns what the formulas
  \<open>K3 = (\<Sigma>\<^sub>p / g\<^sup>2 + B\<^sup>t\<Sigma>\<^sub>oB)\<^sup>-\<^sup>1\<close>, \<open>K2 = g \<cdot> \<Sigma>\<^sub>oB \<cdot> (I - K3 \<cdot> B\<^sup>t\<Sigma>\<^sub>oB)\<close>, \<open>K1 = I - \<Sigma>\<^sub>oB \<cdot> K3 \<cdot> B\<^sup>t\<close>
  and \<open>K1 \<cdot> \<mu>\<^sub>o + K2 \<cdot> \<Sigma>\<^sub>p\<^sup>-\<^sup>1 \<cdot> p\<close> give, and fails exactly when one of the two inverses
  does not exist.
\<close>

theorem update_sigma_is_reflectance_estimate:
  assumes "g \<noteq> 0"
    and "wf_mat NUM_COLORS NUM_COLORS sigma_p'"
    and "wf_mat (NUM_COLORS * MODEL_DIMENSIONS) NUM_COLORS beta"
    and "wf_mat (NUM_COLORS * MODEL_DIMENSIONS) (NUM_COLORS * MODEL_DIMENSIONS) Sigma_o"
    and "length mu_o = NUM_COLORS * MODEL_DIMENSIONS"
    and "length pixel = NUM_COLORS"
  shows "update_sigma sigma_p' g beta Sigma_o mu_o pixel
           = reflectance_estimate sigma_p' g beta Sigma_o mu_o pixel"
  using assms by (rule update_sigma_regrouped)

lemma beta_matrix_1_1:
  "beta_matrix [1, 1] = [[1, 0, 0], [1, 0, 0], [0, 1, 0], [0, 1, 0], [0, 0, 1], [0, 0, 1]]"
  by (simp add: beta_matrix_def NUM_COLORS_def MODEL_DIMENSIONS_def upt_rec)


lemma wf_sigma_p: "wf_mat NUM_COLORS NUM_COLORS sigma_p"
  by (simp add: wf_mat_def sigma_p_def np_diag_def NUM_COLORS_def upt_rec)

lemma wf_np_eye_6:
  "wf_mat (NUM_COLORS * MODEL_DIMENSIONS) (NUM_COLORS * MODEL_DIMENSIONS) (np_eye 6)"
  using wf_np_eye [of 6] by (simp add: NUM_COLORS_def MODEL_DIMENSIONS_def)

theorem update_sigma_is_reflectance_estimate_witness:
  "update_sigma sigma_p 2 (beta_matrix [1, 1]) (np_eye 6) [1, 2, 3, 4, 5, 6] [10, 20, 30]
     = reflectance_estimate sigma_p 2 (beta_matrix [1, 1]) (np_eye 6) [1, 2, 3, 4, 5, 6]
         [10, 20, 30]"
proof -
  have h1: "(2::real) \<noteq> 0"
    by simp
  have h3: "wf_mat (NUM_COLORS * MODEL_DIMENSIONS) NUM_COLORS (beta_matrix [1, 1])"
    by (simp add: beta_matrix_1_1 wf_mat_def NUM_COLORS_def MODEL_DIMENSIONS_def)
  have h5: "length [1, 2, 3, 4, 5, 6 :: real] = NUM_COLORS * MODEL_DIMENSIONS"
    by (simp add: NUM_COLORS_def MODEL_DIMENSIONS_def)
  have h6: "length [10, 20, 30 :: real] = NUM_COLORS"
    by (simp add: NUM_COLORS_def)
  show ?thesis
    by (rule update_sigma_is_reflectance_estimate [OF h1 wf_sigma_p h3 wf_np_eye_6 h5 h6])
qed




subsection \<open>The likelihood terms\<close>

lemma quiet_w:
  assumes "pix < 2" and "hi < n" and "n \<le> 8"
  shows "pixel_w (quiet_state n) ! pix ! hi < 2"
proof -
  have "\<forall>x \<in> set [0, 0, 0, 0, 1, 1, 1, 1 :: nat]. x < 2"
    and "\<forall>x \<in> set [1, 1, 1, 1, 0, 0, 0, 0 :: nat]. x < 2"
    by simp_all
  moreover have "hi < length [0, 0, 0, 0, 1, 1, 1, 1 :: nat]"
    and "hi < length [1, 1, 1, 1, 0, 0, 0, 0 :: nat]"
    using assms by simp_all
  ultimately have "[0, 0, 0, 0, 1, 1, 1, 1 :: nat] ! hi < 2"
    and "[1, 1, 1, 1, 0, 0, 0, 0 :: nat] ! hi < 2"
    using nth_mem by blast+
  moreover have "pix = 0 \<or> pix = 1"
    using assms(1) by auto
  ultimately show ?thesis
    using assms(2) by (auto simp: quiet_state_def)
qed

lemma quiet_o:
  assumes "pix < 2" and "hi < n" and "n \<le> 8"
  shows "pixel_o (quiet_state n) ! pix ! hi < 4"
proof -
  have "\<forall>x \<in> set [0, 3, 2, 1, 3, 2, 0, 1 :: nat]. x < 4"
    and "\<forall>x \<in> set [1, 0, 2, 3, 0, 1, 2, 3 :: nat]. x < 4"
    by simp_all
  moreover have "hi < length [0, 3, 2, 1, 3, 2, 0, 1 :: nat]"
    and "hi < length [1, 0, 2, 3, 0, 1, 2, 3 :: nat]"
    using assms by simp_all
  ultimately have "[0, 3, 2, 1, 3, 2, 0, 1 :: nat] ! hi < 4"
    and "[1, 0, 2, 3, 0, 1, 2, 3 :: nat] ! hi < 4"
    using nth_mem by blast+
  moreover have "pix = 0 \<or> pix = 1"
    using assms(1) by auto
  ultimately show ?thesis
    using assms(2) by (auto simp: quiet_state_def)
qed

lemma quiet_beta: "w < 2 \<Longrightarrow> beta_of (beta_hats (quiet_state n)) w (image_index quiet_globals) = [1, 0]"
  by (auto simp: quiet_state_def quiet_globals_def beta_of_def less_2_cases_iff)

lemma reshape_zeros:
  "reshape MODEL_DIMENSIONS NUM_COLORS (replicate 6 0) = [[0, 0, 0], [0, 0, 0]]"
  by (simp add: reshape_def MODEL_DIMENSIONS_def NUM_COLORS_def upt_rec numeral_eq_Suc)

lemma dot_zeros_right: "dot u (replicate k 0) = 0"
proof -
  have "\<forall>x \<in> set (map2 (*) u (replicate k 0)). x = 0"
    by (auto simp: set_zip)
  then show ?thesis
    unfolding dot_def by (rule sum_list_zero)
qed

lemma vsub_self: "vsub v v = replicate (length v) 0"
  by (induction v) (simp_all add: vsub_def)

lemma log_N_multidim_at_mean:
  assumes "linalg_det cov \<noteq> 0"
  shows "log_N_multidim v v cov
           = Inr (- real (length cov) / 2 * ln (2 * pi) - 0.5 * ln \<bar>linalg_det cov\<bar>)"
  using assms
  by (simp add: log_N_multidim_def linalg_inv_def Let_def vsub_self dot_zeros_right)

lemma p_w_nth: "k < 2 \<Longrightarrow> p_w ! k = 1 / 2"
proof -
  assume "k < 2"
  moreover have "NUM_LIGHT_SOURCES = 2"
    by (simp add: NUM_LIGHT_SOURCES_def LIGHT_SOURCES_def)
  ultimately show ?thesis
    unfolding p_w_def by (simp only: nth_replicate) simp
qed

lemma p_o_nth: "k < 4 \<Longrightarrow> p_o ! k = 1 / 4"
proof -
  assume "k < 4"
  moreover have "NUM_MATERIALS = 4"
    by (simp add: NUM_MATERIALS_def MATERIALS_def)
  ultimately show ?thesis
    unfolding p_o_def by (simp only: nth_replicate) simp
qed

lemma quiet_log_likelihood:
  assumes "pix < 2" and "hi < n" and "n \<le> 8"
  shows "log_likelihood quiet_globals (quiet_state n) pix hi = Inr quiet_score"
proof -
  have w: "pixel_w (quiet_state n) ! pix ! hi < 2"
    by (rule quiet_w [OF assms])
  have o: "pixel_o (quiet_state n) ! pix ! hi < 4"
    by (rule quiet_o [OF assms])
  have p: "pix = 0 \<or> pix = 1"
    using assms(1) by auto
  have pixel: "img quiet_globals ! pix = [0, 0, 0]"
    using p by (auto simp: quiet_globals_def)
  have g: "pixel_g (quiet_state n) ! pix ! hi = 1"
    using p assms(2) by (auto simp: quiet_state_def)
  have sg: "pixel_sigma (quiet_state n) ! pix ! hi = replicate 6 0"
    using p assms(2) by (auto simp: quiet_state_def numeral_2_eq_2)
  have so: "sigma_distribution_std quiet_globals ! (pixel_o (quiet_state n) ! pix ! hi) = np_eye 6"
    and mo: "sigma_distribution_mean quiet_globals ! (pixel_o (quiet_state n) ! pix ! hi)
               = replicate 6 0"
    using o by (simp_all add: quiet_globals_def)
  have sb: "beta_distribution_std quiet_globals ! (pixel_w (quiet_state n) ! pix ! hi) = np_eye 2"
    and mb: "beta_distribution_mean quiet_globals ! (pixel_w (quiet_state n) ! pix ! hi) = [1, 0]"
    and mg: "mu_g quiet_globals ! (pixel_w (quiet_state n) ! pix ! hi) = 1"
    and sd: "std_g quiet_globals ! (pixel_w (quiet_state n) ! pix ! hi) = 1"
    using w by (auto simp: quiet_globals_def less_2_cases_iff)
  have pw: "p_w ! (pixel_w (quiet_state n) ! pix ! hi) = 1 / 2"
    by (rule p_w_nth [OF w])
  have po: "p_o ! (pixel_o (quiet_state n) ! pix ! hi) = 1 / 4"
    by (rule p_o_nth [OF o])
  have pred: "matvec (smul 1 (mat_T (reshape MODEL_DIMENSIONS NUM_COLORS (replicate 6 0)))) [1, 0]
                = [0, 0, 0]"
    by (simp add: reshape_zeros mat_T_def smul_def vsmul_def matvec_def dot_def upt_rec)
  have len: "length (np_eye 6) = 6" "length (np_eye 2) = 2" "length sigma_p = 3"
    by (simp_all add: np_eye_def sigma_p_def np_diag_def)
  show ?thesis
    by (simp add: log_likelihood_def Let_def pixel g sg so mo sb mb mg sd pw po pred
        quiet_beta [OF w] log_N_multidim_at_mean det_np_eye det_sigma_p log_N_singledim_def
        len quiet_score_def)
qed

text \<open>
  C3. The claim is that the illumination term is the univariate Gaussian log-density
  and that the priors enter as \<open>ln p\<^sub>o\<close> and \<open>ln p\<^sub>w\<close>. At value 0, mean 0 and standard
  deviation 2 \<^verbatim>\<open>log_N_singledim\<close> returns \<open>-0.5 ln(2\<pi>) - 1\<close>, the density formula gives
  \<open>-0.5 ln(2\<pi>) - ln 2\<close>. The score of the first hypothesis of the two-pixel example is
  the sum of the pixel, spectrum, reflectance and illumination terms and of the
  numbers \<open>1/2\<close> and \<open>1/4\<close>: these are the prior probabilities of its light source and
  its material themselves, and their logarithms are negative.
\<close>

theorem log_N_singledim_is_not_the_log_density:
  "log_N_singledim 0 0 2 = Inr (- 0.5 * ln (2 * pi) - 1)
   \<and> gaussian_log_density_1d 0 0 2 = - 0.5 * ln (2 * pi) - ln 2
   \<and> log_N_singledim 0 0 2 \<noteq> Inr (gaussian_log_density_1d 0 0 2)
   \<and> log_likelihood quiet_globals (quiet_state 8) 0 0
       = Inr ((- 3 / 2 * ln (2 * pi) - 0.5 * ln 1000) + (- ln (2 * pi)) + (- 3 * ln (2 * pi))
              + (- 0.5 * ln (2 * pi) - 0.5) + 1 / 2 + 1 / 4)
   \<and> p_w ! (pixel_w (quiet_state 8) ! 0 ! 0) = 1 / 2
   \<and> p_o ! (pixel_o (quiet_state 8) ! 0 ! 0) = 1 / 4
   \<and> ln (1 / 2 :: real) < 0 \<and> ln (1 / 4 :: real) < 0"
proof -
  have a: "log_N_singledim 0 0 2 = Inr (- 0.5 * ln (2 * pi) - 1)"
    by (simp add: log_N_singledim_def)
  have "ln (2 * 2 :: real) = ln 2 + ln 2"
    by (rule ln_mult_pos) simp_all
  then have b: "gaussian_log_density_1d 0 0 2 = - 0.5 * ln (2 * pi) - ln 2"
    by (simp add: gaussian_log_density_1d_def)
  have c: "ln (2::real) \<noteq> 1"
    using ln_2_less_1 by simp
  have d: "log_likelihood quiet_globals (quiet_state 8) 0 0
       = Inr ((- 3 / 2 * ln (2 * pi) - 0.5 * ln 1000) + (- ln (2 * pi)) + (- 3 * ln (2 * pi))
              + (- 0.5 * ln (2 * pi) - 0.5) + 1 / 2 + 1 / 4)"
    by (simp add: quiet_log_likelihood quiet_score_def)
  have e: "p_w ! (pixel_w (quiet_state 8) ! 0 ! 0) = 1 / 2"
    "p_o ! (pixel_o (quiet_state 8) ! 0 ! 0) = 1 / 4"
    by (simp_all add: quiet_state_def p_w_nth p_o_nth)
  have f: "ln (1 / 2 :: real) < 0" "ln (1 / 4 :: real) < 0"
    by simp_all
  show ?thesis
    using c f by (simp add: a b d e)
qed

subsection \<open>The hypothesis count through the loop\<close>
















text \<open>
  The model of the loop ends early where Python raises, and nowhere else: a value
  that is not finite never ends it. For the black pixel whose illumination is 0 the
  loop body stores a reflectance and an illumination that are not finite and returns.
\<close>

lemma zero_illumination_is_stored:
  "refine_hypothesis_f64 black_pixel_globals [Some 0, Some 0] [Some 1, Some 1] 0 0
     \<lparr>pixel_o = [[0]], pixel_w = [[1]], pixel_sigma = [[replicate 6 (Some 0)]],
      pixel_g = [[Some 0]], beta_hats = [[[Some 1], [Some 1]], [[Some 1], [Some 1]]]\<rparr>
   = Inr \<lparr>pixel_o = [[0]], pixel_w = [[1]], pixel_sigma = [[replicate 6 None]],
          pixel_g = [[None]], beta_hats = [[[Some 1], [Some 1]], [[Some 1], [Some 1]]]\<rparr>"
  by (simp add: refine_hypothesis_f64_def Let_def beta_of_def black_pixel_globals_def
      isfinite_def list_all_iff nan_to_num_def update_sigma_def stored_vec_def NUM_COLORS_def
      MODEL_DIMENSIONS_def)

lemma stored_raises: "stored r \<noteq> Inl NonFinite"
  by (simp add: stored_def split: sum.splits error.splits)

lemma stored_vec_raises: "stored_vec n r \<noteq> Inl NonFinite"
  by (simp add: stored_vec_def split: sum.splits error.splits)

lemma for_each_error:
  "for_each body xs s = Inl e \<Longrightarrow> \<exists>x \<in> set xs. \<exists>t. body x t = Inl e"
  by (induction xs arbitrary: s) (auto split: sum.splits)

lemma collect_error:
  "collect f xs = Inl e \<Longrightarrow> \<exists>x \<in> set xs. f x = Inl e"
  by (induction xs) (auto split: sum.splits)

lemma linalg_inv_raises: "linalg_inv a \<noteq> Inl NonFinite"
  by (simp add: linalg_inv_def)

lemma refine_hypothesis_f64_raises:
  "refine_hypothesis_f64 env m s pix hi st \<noteq> Inl NonFinite"
  unfolding refine_hypothesis_f64_def Let_def
  using stored_raises stored_vec_raises
  by (auto split: sum.splits if_splits)

lemma window_step_raises: "window_step env cfg n origin st \<noteq> Inl NonFinite"
proof
  assume a: "window_step env cfg n origin st = Inl NonFinite"
  show False
  proof (cases "collect (np_index (NUM_PIXEL env))
                  (window_patch cfg (img_width env) (img_height env) origin)")
    case (Inl e)
    then have "e = NonFinite"
      using a by (simp add: window_step_def)
    with Inl show False
      by (auto dest!: collect_error simp: np_index_def Let_def split: if_splits)
  next
    case (Inr patch)
    with a show False
      by (auto simp: window_step_def Let_def refine_hypothesis_f64_raises
          dest!: for_each_error)
  qed
qed

lemma calc_log_likelihoods_raises: "calc_log_likelihoods env st n \<noteq> Inl NonFinite"
proof
  assume "calc_log_likelihoods env st n = Inl NonFinite"
  then obtain pix hi where "log_likelihood_f64 env st pix hi = Inl NonFinite"
    by (auto simp: calc_log_likelihoods_def dest!: collect_error)
  then show False
    using stored_raises [of "log_likelihood env (finite_part st) pix hi"]
    by (auto simp: log_likelihood_f64_def split: sum.splits if_splits)
qed

lemma update_betas_raises:
  "update_betas i idx bh pw ps pg bm bs sp \<noteq> Inl NonFinite"
proof
  assume "update_betas i idx bh pw ps pg bm bs sp = Inl NonFinite"
  then obtain ls where "update_beta_f64 i pw ps pg bm bs sp ls = Inl NonFinite"
    by (auto simp: update_betas_def dest!: for_each_error split: sum.splits)
  then show False
    unfolding update_beta_f64_def Let_def
    using stored_vec_raises linalg_inv_raises
    by (auto split: sum.splits if_splits)
qed

lemma iteration_step_raises: "iteration_step env cfg k st \<noteq> Inl NonFinite"
proof
  assume a: "iteration_step env cfg k st = Inl NonFinite"
  have w: "window_origins cfg \<noteq> Inl NonFinite"
    by (auto simp: window_origins_def py_range_def split: sum.splits if_splits)
  have f: "for_each (window_step env cfg n) origins st \<noteq> Inl NonFinite" for n origins
    by (auto dest!: for_each_error simp: window_step_raises)
  have u: "update_hypothesises npix l po pw ps pg \<noteq> Inl NonFinite"
    for npix and l :: "float64 list list" and po pw and ps :: "float64 list list list"
      and pg :: "float64 list list"
    by (simp add: update_hypothesises_def Let_def)
  from a show False
    unfolding iteration_step_def Let_def
    using w f u calc_log_likelihoods_raises update_betas_raises
    by (auto split: sum.splits prod.splits)
qed

lemma iterations_raises: "iterations env cfg k st \<noteq> Inl NonFinite"
  by (auto simp: iterations_def dest!: for_each_error simp: iteration_step_raises)

lemma color_metric_chart:
  assumes "o' < NUM_MATERIALS" and "w < NUM_LIGHT_SOURCES"
  shows "color_metric (mean_color_chart ! o' ! w) \<noteq> 0"
proof -
  have "o' \<in> {0, 1, 2, 3}" and "w \<in> {0, 1}"
    using assms by (auto simp: NUM_MATERIALS_def MATERIALS_def NUM_LIGHT_SOURCES_def
        LIGHT_SOURCES_def)
  then show ?thesis
    by (auto simp: mean_color_chart_def color_metric_def color_angle_distance_def
        numeral_3_eq_3)
qed

lemma combination_in_range:
  assumes "h < NUM_HYPOTHESISES"
  shows "fst (MATERIALS_LIGHT_SOURCE_COMBINATIONS ! h) < NUM_MATERIALS
       \<and> snd (MATERIALS_LIGHT_SOURCE_COMBINATIONS ! h) < NUM_LIGHT_SOURCES"
proof -
  have "MATERIALS_LIGHT_SOURCE_COMBINATIONS ! h \<in> set MATERIALS_LIGHT_SOURCE_COMBINATIONS"
    using assms by (simp add: NUM_HYPOTHESISES_def)
  then show ?thesis
    by (auto simp: MATERIALS_LIGHT_SOURCE_COMBINATIONS_def)
qed

lemma init_pixel_hypothesises_raises: "init_pixel_hypothesises rs img' \<noteq> Inl NonFinite"
proof
  assume "init_pixel_hypothesises rs img' = Inl NonFinite"
  then obtain pixel where "init_pixel rs pixel = Inl NonFinite"
    by (auto simp: init_pixel_hypothesises_def dest!: collect_error split: sum.splits)
  then obtain h where h: "h < NUM_HYPOTHESISES"
    and "init_g pixel (mean_color_chart ! fst (MATERIALS_LIGHT_SOURCE_COMBINATIONS ! h)
                         ! snd (MATERIALS_LIGHT_SOURCE_COMBINATIONS ! h)) = Inl NonFinite"
    by (auto simp: init_pixel_def Let_def dest!: collect_error split: sum.splits)
  then show False
    using combination_in_range [OF h]
    by (auto simp: init_g_def color_metric_chart split: if_splits)
qed

lemma convergence_loop_raises: "convergence_loop env cfg beta_hats' k \<noteq> Inl NonFinite"
  unfolding convergence_loop_def Let_def
  using init_pixel_hypothesises_raises iterations_raises
  by (auto split: sum.splits prod.splits)

subsection \<open>A run of the whole loop\<close>


















































end
